theory Spec2Isabelle
  imports Complex_Main
begin

section \<open>JavaScript numbers\<close>

text \<open>
  A JavaScript number is an IEEE-754 binary64 value. The finite ones are modelled as the
  reals they denote; every arithmetic operator of the source computes the exact real
  result and rounds it to the nearest double, ties to even (\<open>fl\<close>). Subnormals are kept
  (the exponent of the last place is at least \<open>-1074\<close>); overflow to \<open>Infinity\<close>, \<open>NaN\<close>
  and the sign of zero are not modelled, so the model speaks about runs whose values stay
  finite. \<open>Math.floor\<close>, \<open>Math.ceil\<close>, \<open>Math.min\<close> and the comparisons are exact on
  doubles and are the functions of HOL.
\<close>

text \<open>\<open>lg2 r\<close> is the binade of a positive \<open>r\<close>: the integer \<open>e\<close> with \<open>2^e \<le> r < 2^(e+1)\<close>.\<close>

function lg2 :: "real \<Rightarrow> int" where
  "lg2 r = (if r \<le> 0 then 0 else if 2 \<le> r then lg2 (r / 2) + 1
            else if r < 1 then lg2 (r * 2) - 1 else 0)"
  by pat_completeness auto
termination
proof (relation "measure (\<lambda>r. nat \<bar>\<lfloor>log 2 r\<rfloor>\<bar>)")
  show "wf (measure (\<lambda>r. nat \<bar>\<lfloor>log 2 r\<rfloor>\<bar>))" by simp
next
  fix r :: real assume a: "\<not> r \<le> 0" "2 \<le> r"
  have "log 2 (r / 2) = log 2 r - 1" using a by (simp add: log_divide)
  moreover have "1 \<le> log 2 r" using a by (simp add: le_log_iff)
  ultimately show "(r / 2, r) \<in> measure (\<lambda>r. nat \<bar>\<lfloor>log 2 r\<rfloor>\<bar>)"
    by simp
next
  fix r :: real assume a: "\<not> r \<le> 0" "\<not> 2 \<le> r" "r < 1"
  have "log 2 (r * 2) = log 2 r + 1" using a by (simp add: log_mult)
  then have "\<lfloor>log 2 (r * 2)\<rfloor> = \<lfloor>log 2 r\<rfloor> + 1" by simp
  moreover have "log 2 r < 0" using a by simp
  then have "\<lfloor>log 2 r\<rfloor> < 0" by (simp add: floor_less_iff)
  ultimately have "nat \<bar>\<lfloor>log 2 (r * 2)\<rfloor>\<bar> < nat \<bar>\<lfloor>log 2 r\<rfloor>\<bar>" by linarith
  then show "(r * 2, r) \<in> measure (\<lambda>r. nat \<bar>\<lfloor>log 2 r\<rfloor>\<bar>)"
    by simp
qed

declare lg2.simps [simp del]

definition round_even :: "real \<Rightarrow> int" where
  "round_even r = (let f = \<lfloor>r\<rfloor> in
     if r - of_int f < 1 / 2 then f
     else if 1 / 2 < r - of_int f then f + 1
     else if even f then f else f + 1)"

definition ulp_exp :: "real \<Rightarrow> int" where
  "ulp_exp r = max (lg2 \<bar>r\<bar> - 52) (- 1074)"

definition fl :: "real \<Rightarrow> real" where
  "fl r = of_int (round_even (r / 2 powi ulp_exp r)) * 2 powi ulp_exp r"

definition is_double :: "real \<Rightarrow> bool" where
  "is_double r = (fl r = r)"

definition js_add :: "real \<Rightarrow> real \<Rightarrow> real" where
  "js_add a b = fl (a + b)"

definition js_sub :: "real \<Rightarrow> real \<Rightarrow> real" where
  "js_sub a b = fl (a - b)"

definition js_mul :: "real \<Rightarrow> real \<Rightarrow> real" where
  "js_mul a b = fl (a * b)"

text \<open>\<open>Math.PI\<close> is the double nearest to \<open>\<pi>\<close>.\<close>

definition Math_PI :: real where
  "Math_PI = 884279719003555 / 2 ^ 48"

text \<open>
  ECMAScript leaves the accuracy of \<open>Math.sin\<close> to the implementation; it is taken here
  as the correctly rounded sine. It only moves coins inside their own square.
\<close>

definition Math_sin :: "real \<Rightarrow> real" where
  "Math_sin r = fl (sin r)"

text \<open>
  JavaScript truthiness of a value that is \<open>null\<close>/\<open>undefined\<close> or a string: the empty
  string is falsy as well.
\<close>

definition truthy :: "string option \<Rightarrow> bool" where
  "truthy v = (v \<noteq> None \<and> v \<noteq> Some [])"

section \<open>The heap: Vector objects and actor objects\<close>

text \<open>
  Objects have identity and are mutated in place, so they live in a store and are named
  by their address. A reference is never dangling in JavaScript; the address of a new
  object is the current length of its store.
\<close>

type_synonym ref = nat

datatype error = TypeError

record Vector =
  x :: real
  y :: real

text \<open>
  The three actor variants with the fields their constructors assign. \<open>speed\<close> is
  optional because the \<open>Lava\<close> constructor leaves it undefined for a character other
  than \<open>=\<close>, \<open>|\<close> and \<open>v\<close>.
\<close>

datatype actor =
    Player (pos: ref) (asize: ref) (speed: "ref option")
  | Lava (pos: ref) (asize: ref) (speed: "ref option") (repeatPos: "ref option")
  | Coin (basePos: ref) (pos: ref) (asize: ref) (wobble: real)
where
  "speed (Coin b p s wb) = None"
| "repeatPos (Player p s v) = None"
| "repeatPos (Coin b p s wb) = None"

text \<open>The \<open>type\<close> property of the three prototypes.\<close>

fun actor_type :: "actor \<Rightarrow> string" where
  "actor_type (Player _ _ _) = ''player''"
| "actor_type (Lava _ _ _ _) = ''lava''"
| "actor_type (Coin _ _ _ _) = ''coin''"

text \<open>
  The fields of the \<open>Level\<close> object together with the two stores. \<open>grid\<close> holds \<open>null\<close>
  (\<open>None\<close>), \<open>"wall"\<close> or \<open>"lava"\<close>; \<open>actors\<close> holds references to actor objects.
\<close>

record world =
  vecs :: "Vector list"
  objs :: "actor list"
  width :: nat
  height :: nat
  grid :: "string option list list"
  actors :: "ref list"
  player :: "ref option"
  status :: "string option"
  finishDelay :: "real option"

definition vec :: "world \<Rightarrow> ref \<Rightarrow> Vector" where
  "vec w r = vecs w ! r"

definition obj :: "world \<Rightarrow> ref \<Rightarrow> actor" where
  "obj w r = objs w ! r"

section \<open>Vector\<close>

definition new_Vector :: "real \<Rightarrow> real \<Rightarrow> world \<Rightarrow> ref \<times> world" where
  "new_Vector a b w = (length (vecs w), w\<lparr>vecs := vecs w @ [\<lparr>x = a, y = b\<rparr>]\<rparr>)"

definition Vector_plus :: "ref \<Rightarrow> ref \<Rightarrow> world \<Rightarrow> ref \<times> world" where
  "Vector_plus this other w =
     new_Vector (js_add (x (vec w this)) (x (vec w other)))
                (js_add (y (vec w this)) (y (vec w other))) w"

definition Vector_times :: "ref \<Rightarrow> real \<Rightarrow> world \<Rightarrow> ref \<times> world" where
  "Vector_times this factor w =
     new_Vector (js_mul (x (vec w this)) factor) (js_mul (y (vec w this)) factor) w"

text \<open>Assignments to a field of an existing Vector (\<open>v.x = a\<close>, \<open>v.y = a\<close>).\<close>

definition set_x :: "ref \<Rightarrow> real \<Rightarrow> world \<Rightarrow> world" where
  "set_x r a w = w\<lparr>vecs := (vecs w)[r := (vec w r)\<lparr>x := a\<rparr>]\<rparr>"

definition set_y :: "ref \<Rightarrow> real \<Rightarrow> world \<Rightarrow> world" where
  "set_y r a w = w\<lparr>vecs := (vecs w)[r := (vec w r)\<lparr>y := a\<rparr>]\<rparr>"

text \<open>Assignments to a field of an actor object (\<open>this.pos = p\<close>, \<open>this.speed = v\<close>).\<close>

fun with_pos :: "ref \<Rightarrow> actor \<Rightarrow> actor" where
  "with_pos p (Player _ s v) = Player p s v"
| "with_pos p (Lava _ s v r) = Lava p s v r"
| "with_pos p (Coin b _ s wb) = Coin b p s wb"

definition set_pos :: "ref \<Rightarrow> ref \<Rightarrow> world \<Rightarrow> world" where
  "set_pos this p w = w\<lparr>objs := (objs w)[this := with_pos p (obj w this)]\<rparr>"

fun with_speed :: "ref option \<Rightarrow> actor \<Rightarrow> actor" where
  "with_speed v (Player p s _) = Player p s v"
| "with_speed v (Lava p s _ r) = Lava p s v r"
| "with_speed v (Coin b p s wb) = Coin b p s wb"

definition set_speed :: "ref \<Rightarrow> ref option \<Rightarrow> world \<Rightarrow> world" where
  "set_speed this v w = w\<lparr>objs := (objs w)[this := with_speed v (obj w this)]\<rparr>"

definition new_obj :: "actor \<Rightarrow> world \<Rightarrow> ref \<times> world" where
  "new_obj a w = (length (objs w), w\<lparr>objs := objs w @ [a]\<rparr>)"

section \<open>Level: obstacle and overlap queries\<close>

text \<open>
  \<open>this.grid[y][x]\<close>: a row that does not exist is \<open>undefined\<close> and indexing it throws;
  a column that does not exist in an existing row reads \<open>undefined\<close>.
\<close>

definition grid_at :: "world \<Rightarrow> int \<Rightarrow> int \<Rightarrow> error + string option" where
  "grid_at w yy xx =
     (if 0 \<le> yy \<and> nat yy < length (grid w) then
        (let row = grid w ! nat yy in
         if 0 \<le> xx \<and> nat xx < length row then Inr (row ! nat xx) else Inr None)
      else Inl TypeError)"

text \<open>
  The inner loop of \<open>obstacleAt\<close> over \<open>x\<close>. \<open>Inr (Some t)\<close> is the \<open>return fieldType\<close>;
  \<open>Inr None\<close> means the row was scanned to its end.
\<close>

function scan_row :: "world \<Rightarrow> int \<Rightarrow> int \<Rightarrow> int \<Rightarrow> error + string option" where
  "scan_row w yy xx xEnd =
     (if xx < xEnd then
        (case grid_at w yy xx of
           Inl e \<Rightarrow> Inl e
         | Inr fieldType \<Rightarrow>
             if truthy fieldType then Inr fieldType else scan_row w yy (xx + 1) xEnd)
      else Inr None)"
  by pat_completeness auto
termination
  by (relation "measure (\<lambda>(w, yy, xx, xEnd). nat (xEnd - xx))") auto

declare scan_row.simps [simp del]

text \<open>The outer loop over \<open>y\<close>.\<close>

function scan_rows :: "world \<Rightarrow> int \<Rightarrow> int \<Rightarrow> int \<Rightarrow> int \<Rightarrow> error + string option" where
  "scan_rows w yy yEnd xStart xEnd =
     (if yy < yEnd then
        (case scan_row w yy xStart xEnd of
           Inl e \<Rightarrow> Inl e
         | Inr r \<Rightarrow> if truthy r then Inr r else scan_rows w (yy + 1) yEnd xStart xEnd)
      else Inr None)"
  by pat_completeness auto
termination
  by (relation "measure (\<lambda>(w, yy, yEnd, xStart, xEnd). nat (yEnd - yy))") auto

declare scan_rows.simps [simp del]

text \<open>
  \<open>obstacleAt(pos, size)\<close> only reads the four coordinates, so it takes the contents of
  the two Vectors. \<open>Inr None\<close> is the \<open>undefined\<close> of falling off the end of the function.
\<close>

definition obstacleAt :: "world \<Rightarrow> Vector \<Rightarrow> Vector \<Rightarrow> error + string option" where
  "obstacleAt w p sz =
     (let xStart = \<lfloor>x p\<rfloor>;
          xEnd = \<lceil>js_add (x p) (x sz)\<rceil>;
          yStart = \<lfloor>y p\<rfloor>;
          yEnd = \<lceil>js_add (y p) (y sz)\<rceil>
      in if xStart < 0 \<or> xEnd > int (width w) \<or> yStart < 0 then Inr (Some ''wall'')
         else if yEnd > int (height w) then Inr (Some ''lava'')
         else scan_rows w yStart yEnd xStart xEnd)"

text \<open>The loop of \<open>actorAt\<close> over \<open>this.actors\<close>, from the front.\<close>

fun actorAt_from :: "world \<Rightarrow> ref \<Rightarrow> ref list \<Rightarrow> ref option" where
  "actorAt_from w a [] = None"
| "actorAt_from w a (other # rest) =
     (if other \<noteq> a \<and>
         js_add (x (vec w (pos (obj w a)))) (x (vec w (asize (obj w a)))) > x (vec w (pos (obj w other))) \<and>
         x (vec w (pos (obj w a))) < js_add (x (vec w (pos (obj w other)))) (x (vec w (asize (obj w other)))) \<and>
         js_add (y (vec w (pos (obj w a)))) (y (vec w (asize (obj w a)))) > y (vec w (pos (obj w other))) \<and>
         y (vec w (pos (obj w a))) < js_add (y (vec w (pos (obj w other)))) (y (vec w (asize (obj w other))))
      then Some other
      else actorAt_from w a rest)"

definition actorAt :: "world \<Rightarrow> ref \<Rightarrow> ref option" where
  "actorAt w a = actorAt_from w a (actors w)"

section \<open>Level: collision response\<close>

text \<open>
  \<open>playerTouched(type, actor)\<close>; the callers in \<open>moveX\<close> and \<open>moveY\<close> pass no actor
  (\<open>None\<close>), and no object is equal to \<open>undefined\<close>.
\<close>

definition playerTouched :: "string \<Rightarrow> ref option \<Rightarrow> world \<Rightarrow> world" where
  "playerTouched type a w =
     (if type = ''lava'' \<and> status w = None then
        w\<lparr>status := Some ''lost'', finishDelay := Some 1\<rparr>
      else if type = ''coin'' then
        (let w1 = w\<lparr>actors := filter (\<lambda>other. Some other \<noteq> a) (actors w)\<rparr> in
         if \<not> list_ex (\<lambda>b. actor_type (obj w1 b) = ''coin'') (actors w1) then
           w1\<lparr>status := Some ''won'', finishDelay := Some 1\<rparr>
         else w1)
      else w)"

definition isFinished :: "world \<Rightarrow> bool" where
  "isFinished w = (status w \<noteq> None \<and> (case finishDelay w of None \<Rightarrow> 0 | Some d \<Rightarrow> d) < 0)"

section \<open>Actors\<close>

record keys =
  left :: bool
  right :: bool
  up :: bool

definition playerXSpeed :: real where "playerXSpeed = 7"
definition gravity :: real where "gravity = 30"
definition jumpSpeed :: real where "jumpSpeed = 17"
definition wobbleSpeed :: real where "wobbleSpeed = 8"
definition wobbleDist :: real where "wobbleDist = fl (7 / 100)"
definition maxStep :: real where "maxStep = fl (5 / 100)"

text \<open>
  The methods take the address of \<open>this\<close>. A method reads the fields it uses whatever
  the variant of \<open>this\<close> is; reading a property of \<open>undefined\<close> throws.
\<close>

definition Player_moveX :: "real \<Rightarrow> keys \<Rightarrow> ref \<Rightarrow> world \<Rightarrow> error + world" where
  "Player_moveX step ks this w =
     (case speed (obj w this) of
        None \<Rightarrow> Inl TypeError
      | Some v \<Rightarrow>
          (let w1 = set_x v 0 w;
               w2 = (if left ks then set_x v (js_sub (x (vec w1 v)) playerXSpeed) w1 else w1);
               w3 = (if right ks then set_x v (js_add (x (vec w2 v)) playerXSpeed) w2 else w2);
               (motion, w4) = new_Vector (js_mul (x (vec w3 v)) step) 0 w3;
               (newPos, w5) = Vector_plus (pos (obj w4 this)) motion w4
           in case obstacleAt w5 (vec w5 newPos) (vec w5 (asize (obj w5 this))) of
                Inl e \<Rightarrow> Inl e
              | Inr obstacle \<Rightarrow>
                  if truthy obstacle then Inr (playerTouched (the obstacle) None w5)
                  else Inr (set_pos this newPos w5)))"

definition Player_moveY :: "real \<Rightarrow> keys \<Rightarrow> ref \<Rightarrow> world \<Rightarrow> error + world" where
  "Player_moveY step ks this w =
     (case speed (obj w this) of
        None \<Rightarrow> Inl TypeError
      | Some v \<Rightarrow>
          (let w1 = set_y v (js_add (y (vec w v)) (js_mul step gravity)) w;
               (motion, w2) = new_Vector 0 (js_mul (y (vec w1 v)) step) w1;
               (newPos, w3) = Vector_plus (pos (obj w2 this)) motion w2
           in case obstacleAt w3 (vec w3 newPos) (vec w3 (asize (obj w3 this))) of
                Inl e \<Rightarrow> Inl e
              | Inr obstacle \<Rightarrow>
                  if truthy obstacle then
                    (let w4 = playerTouched (the obstacle) None w3 in
                     if up ks \<and> y (vec w4 v) > 0 then Inr (set_y v (- jumpSpeed) w4)
                     else Inr (set_y v 0 w4))
                  else Inr (set_pos this newPos w3)))"

definition Player_act :: "real \<Rightarrow> keys \<Rightarrow> ref \<Rightarrow> world \<Rightarrow> error + world" where
  "Player_act step ks this w =
     (case Player_moveX step ks this w of
        Inl e \<Rightarrow> Inl e
      | Inr w1 \<Rightarrow>
          (case Player_moveY step ks this w1 of
             Inl e \<Rightarrow> Inl e
           | Inr w2 \<Rightarrow>
               (let w3 = (case actorAt w2 this of
                            None \<Rightarrow> w2
                          | Some other \<Rightarrow>
                              playerTouched (actor_type (obj w2 other)) (Some other) w2)
                in if status w3 = Some ''lost'' then
                     (let w4 = set_y (pos (obj w3 this))
                                 (js_add (y (vec w3 (pos (obj w3 this)))) step) w3
                      in Inr (set_y (asize (obj w4 this))
                                (js_sub (y (vec w4 (asize (obj w4 this)))) step) w4))
                   else Inr w3)))"

definition Lava_act :: "real \<Rightarrow> ref \<Rightarrow> world \<Rightarrow> error + world" where
  "Lava_act step this w =
     (case speed (obj w this) of
        None \<Rightarrow> Inl TypeError
      | Some v \<Rightarrow>
          (let (d, w1) = Vector_times v step w;
               (newPos, w2) = Vector_plus (pos (obj w1 this)) d w1
           in case obstacleAt w2 (vec w2 newPos) (vec w2 (asize (obj w2 this))) of
                Inl e \<Rightarrow> Inl e
              | Inr obstacle \<Rightarrow>
                  if \<not> truthy obstacle then Inr (set_pos this newPos w2)
                  else
                    (case repeatPos (obj w2 this) of
                       Some r \<Rightarrow> Inr (set_pos this r w2)
                     | None \<Rightarrow>
                         (let (nv, w3) = Vector_times v (- 1) w2
                          in Inr (set_speed this (Some nv) w3)))))"

definition Coin_act :: "real \<Rightarrow> ref \<Rightarrow> world \<Rightarrow> error + world" where
  "Coin_act step this w =
     (case obj w this of
        Coin b p s wb \<Rightarrow>
          (let wb' = js_add wb (js_mul step wobbleSpeed);
               w1 = w\<lparr>objs := (objs w)[this := Coin b p s wb']\<rparr>;
               wobblePos = js_mul (Math_sin wb') wobbleDist;
               (t, w2) = new_Vector 0 wobblePos w1;
               (np, w3) = Vector_plus b t w2
           in Inr (set_pos this np w3))
      | _ \<Rightarrow> Inl TypeError)"

text \<open>\<open>actor.act(thisStep, this, keys)\<close>: the method comes from the prototype of the actor.\<close>

definition act :: "real \<Rightarrow> keys \<Rightarrow> ref \<Rightarrow> world \<Rightarrow> error + world" where
  "act step ks a w =
     (case obj w a of
        Player _ _ _ \<Rightarrow> Player_act step ks a w
      | Lava _ _ _ _ \<Rightarrow> Lava_act step a w
      | Coin _ _ _ _ \<Rightarrow> Coin_act step a w)"

section \<open>Level construction\<close>

text \<open>
  The constructors. Each takes the value that the next call of \<open>Math.random\<close> returns,
  the position Vector and the plan character, as \<open>new Actor(new Vector(x, y), ch)\<close> passes
  them; only \<open>Coin\<close> draws a random number.
\<close>

definition new_Player :: "real \<Rightarrow> ref \<Rightarrow> char \<Rightarrow> world \<Rightarrow> ref \<times> world" where
  "new_Player rnd p ch w =
     (let (t, w1) = new_Vector 0 (- (1 / 2)) w;
          (q, w2) = Vector_plus p t w1;
          (s, w3) = new_Vector (fl (8 / 10)) (3 / 2) w2;
          (v, w4) = new_Vector 0 0 w3
      in new_obj (Player q s (Some v)) w4)"

definition new_Lava :: "real \<Rightarrow> ref \<Rightarrow> char \<Rightarrow> world \<Rightarrow> ref \<times> world" where
  "new_Lava rnd p ch w =
     (let (s, w1) = new_Vector 1 1 w in
      if ch = CHR ''='' then
        (let (v, w2) = new_Vector 2 0 w1 in new_obj (Lava p s (Some v) None) w2)
      else if ch = CHR ''|'' then
        (let (v, w2) = new_Vector 0 2 w1 in new_obj (Lava p s (Some v) None) w2)
      else if ch = CHR ''v'' then
        (let (v, w2) = new_Vector 0 3 w1 in new_obj (Lava p s (Some v) (Some p)) w2)
      else new_obj (Lava p s None None) w1)"

definition new_Coin :: "real \<Rightarrow> ref \<Rightarrow> char \<Rightarrow> world \<Rightarrow> ref \<times> world" where
  "new_Coin rnd p ch w =
     (let (t, w1) = new_Vector (fl (2 / 10)) (fl (1 / 10)) w;
          (q, w2) = Vector_plus p t w1;
          (s, w3) = new_Vector (fl (6 / 10)) (fl (6 / 10)) w2
      in new_obj (Coin q q s (js_mul (js_mul rnd Math_PI) 2)) w3)"

definition actorChars :: "char \<rightharpoonup> (real \<Rightarrow> ref \<Rightarrow> char \<Rightarrow> world \<Rightarrow> ref \<times> world)" where
  "actorChars = map_of
     [(CHR ''@'', new_Player), (CHR ''o'', new_Coin),
      (CHR ''='', new_Lava), (CHR ''|'', new_Lava), (CHR ''v'', new_Lava)]"

text \<open>
  The inner loop of the constructor over the columns \<open>0 .. width - 1\<close> of row \<open>yy\<close>.
  \<open>line[x]\<close> beyond the end of the row is \<open>undefined\<close>, which is no actor character,
  not \<open>"x"\<close> and not \<open>"!"\<close>. \<open>rand xx yy\<close> is what \<open>Math.random()\<close> returns while the
  character at column \<open>xx\<close> of row \<open>yy\<close> is processed.
\<close>

fun build_line ::
  "(nat \<Rightarrow> nat \<Rightarrow> real) \<Rightarrow> string \<Rightarrow> nat \<Rightarrow> nat list \<Rightarrow> string option list \<Rightarrow> world
     \<Rightarrow> string option list \<times> world" where
  "build_line rand line yy [] gridLine w = (gridLine, w)"
| "build_line rand line yy (xx # xs) gridLine w =
     (let ch = (if xx < length line then Some (line ! xx) else None) in
      case (case ch of None \<Rightarrow> None | Some c \<Rightarrow> actorChars c) of
        Some Actor \<Rightarrow>
          (let (p, w1) = new_Vector (of_nat xx) (of_nat yy) w;
               (a, w2) = Actor (rand xx yy) p (the ch) w1
           in build_line rand line yy xs (gridLine @ [None]) (w2\<lparr>actors := actors w2 @ [a]\<rparr>))
      | None \<Rightarrow>
          build_line rand line yy xs
            (gridLine @ [if ch = Some CHR ''x'' then Some ''wall''
                         else if ch = Some CHR ''!'' then Some ''lava'' else None]) w)"

text \<open>The outer loop over the rows \<open>0 .. height - 1\<close>.\<close>

fun build_grid :: "(nat \<Rightarrow> nat \<Rightarrow> real) \<Rightarrow> string list \<Rightarrow> nat list \<Rightarrow> world \<Rightarrow> world" where
  "build_grid rand plan [] w = w"
| "build_grid rand plan (yy # ys) w =
     (let (gridLine, w1) = build_line rand (plan ! yy) yy [0..<width w] [] w
      in build_grid rand plan ys (w1\<lparr>grid := grid w1 @ [gridLine]\<rparr>))"

text \<open>
  \<open>new Level(plan)\<close>. \<open>plan[0].length\<close> throws on an empty plan; nothing else is checked.
  \<open>filter(...)[0]\<close> is the first player in \<open>actors\<close>, or \<open>undefined\<close>.
\<close>

definition new_Level :: "(nat \<Rightarrow> nat \<Rightarrow> real) \<Rightarrow> string list \<Rightarrow> error + world" where
  "new_Level rand plan =
     (case plan of
        [] \<Rightarrow> Inl TypeError
      | line0 # _ \<Rightarrow>
          (let w0 = \<lparr>vecs = [], objs = [], width = length line0, height = length plan,
                     grid = [], actors = [], player = None, status = None,
                     finishDelay = None\<rparr>;
               w1 = build_grid rand plan [0..<height w0] w0
           in Inr (w1\<lparr>player := find (\<lambda>a. actor_type (obj w1 a) = ''player'') (actors w1),
                       status := None, finishDelay := None\<rparr>)))"

section \<open>The simulation driver\<close>




text \<open>
  The values of \<open>thisStep\<close> that the loop of \<open>animate\<close> computes from \<open>step\<close>, one for each
  iteration, when no actor throws.
\<close>

partial_function (option) substeps :: "real \<Rightarrow> real list option" where
  "substeps step =
     (if step > 0 then
        Option.bind (substeps (js_sub step (min step maxStep)))
          (\<lambda>rest. Some (min step maxStep # rest))
      else Some [])"


section \<open>Notions of the specification\<close>

text \<open>
  The cells that a rectangle covers, in row-major order: rows from the floor of the top
  edge to the ceiling of the bottom edge, and in each row the columns from the floor of
  the left edge to the ceiling of the right edge (both ranges half-open).
\<close>

definition covered_cells :: "world \<Rightarrow> Vector \<Rightarrow> Vector \<Rightarrow> string option list" where
  "covered_cells w p sz =
     concat (map (\<lambda>yy. map (\<lambda>xx. grid w ! nat yy ! nat xx)
                          [\<lfloor>x p\<rfloor> .. \<lceil>js_add (x p) (x sz)\<rceil> - 1])
                 [\<lfloor>y p\<rfloor> .. \<lceil>js_add (y p) (y sz)\<rceil> - 1])"

text \<open>The first cell of a list that is not empty (\<open>null\<close>), if there is one.\<close>

definition first_nonempty :: "string option list \<Rightarrow> string option" where
  "first_nonempty cs = (case find (\<lambda>c. c \<noteq> None) cs of None \<Rightarrow> None | Some c \<Rightarrow> c)"

text \<open>
  A well-formed background: \<open>height\<close> rows of \<open>width\<close> cells, none of which is the
  empty string. The constructor only stores \<open>null\<close>, \<open>"wall"\<close> and \<open>"lava"\<close>.
\<close>

definition grid_ok :: "world \<Rightarrow> bool" where
  "grid_ok w = (length (grid w) = height w \<and>
     (\<forall>row \<in> set (grid w). length row = width w \<and> Some [] \<notin> set row))"

text \<open>No actor of the level is a player.\<close>

definition no_player :: "world \<Rightarrow> bool" where
  "no_player w = (\<forall>a \<in> set (actors w). a < length (objs w) \<and> actor_type (obj w a) \<noteq> ''player'')"

text \<open>
  Every Vector object of \<open>w\<close> whose address is not in \<open>S\<close> is still there in \<open>w'\<close> with
  the same contents: between \<open>w\<close> and \<open>w'\<close> no Vector outside \<open>S\<close> was assigned to.
\<close>

definition vectors_kept :: "ref set \<Rightarrow> world \<Rightarrow> world \<Rightarrow> bool" where
  "vectors_kept S w w' =
     (length (vecs w) \<le> length (vecs w') \<and>
      (\<forall>r < length (vecs w). r \<notin> S \<longrightarrow> vecs w' ! r = vecs w ! r))"

text \<open>
  The sub-steps of \<open>animate\<close> in the words of the specification: \<open>ceil(deltaTime / maxStep)\<close>
  of them, each the minimum of the remaining time and \<open>maxStep\<close>, where the remaining time
  is computed exactly.
\<close>

fun spec_steps :: "nat \<Rightarrow> real \<Rightarrow> real list" where
  "spec_steps 0 remaining = []"
| "spec_steps (Suc n) remaining =
     min remaining maxStep # spec_steps n (remaining - min remaining maxStep)"


text \<open>
  A level on which every actor can act: the background has at least \<open>height\<close> rows, and
  every actor of the level is an object of the store that is a coin or has a speed. The
  second relation says that \<open>w'\<close> has the background of \<open>w\<close>, no actor that \<open>w\<close> has not,
  and the same objects as far as this property goes.
\<close>

definition actor_ok :: "actor \<Rightarrow> bool" where
  "actor_ok a = (actor_type a = ''coin'' \<or> speed a \<noteq> None)"


definition keeps_ok :: "world \<Rightarrow> world \<Rightarrow> bool" where
  "keeps_ok w w' =
     (height w' = height w \<and> grid w' = grid w \<and> set (actors w') \<subseteq> set (actors w) \<and>
      map actor_ok (objs w') = map actor_ok (objs w))"

section \<open>Example levels\<close>

text \<open>
  A level with one coin next to the player above a floor of lava, and the same with two
  coins. No random phase is drawn (\<open>Math.random\<close> returns \<open>0\<close>).
\<close>

definition no_random :: "nat \<Rightarrow> nat \<Rightarrow> real" where
  "no_random xx yy = 0"


definition demo_level :: world where
  "demo_level =
     \<lparr>vecs =
        [\<lparr>x = 0, y = 1\<rparr>, \<lparr>x = 0, y = - (1 / 2)\<rparr>, \<lparr>x = 0, y = 1 / 2\<rparr>,
         \<lparr>x = 3602879701896397 / 4503599627370496, y = 3 / 2\<rparr>,
         \<lparr>x = 0, y = 0\<rparr>, \<lparr>x = 1, y = 1\<rparr>,
         \<lparr>x = 3602879701896397 / 18014398509481984,
            y = 3602879701896397 / 36028797018963968\<rparr>,
         \<lparr>x = 5404319552844595 / 4503599627370496,
            y = 2476979795053773 / 2251799813685248\<rparr>,
         \<lparr>x = 5404319552844595 / 9007199254740992,
            y = 5404319552844595 / 9007199254740992\<rparr>],
      objs = [Player 2 3 (Some 4), Coin 7 7 8 0], width = 2, height = 3,
      grid = [[None, None], [None, None], [Some ''lava'', Some ''lava'']],
      actors = [0, 1], player = Some 0, status = None, finishDelay = None\<rparr>"

definition coins_plan :: "string list" where
  "coins_plan = [''   '', ''@oo'', ''!!!'']"

definition coins_level :: world where
  "coins_level =
     \<lparr>vecs =
        [\<lparr>x = 0, y = 1\<rparr>, \<lparr>x = 0, y = - (1 / 2)\<rparr>, \<lparr>x = 0, y = 1 / 2\<rparr>,
         \<lparr>x = 3602879701896397 / 4503599627370496, y = 3 / 2\<rparr>,
         \<lparr>x = 0, y = 0\<rparr>, \<lparr>x = 1, y = 1\<rparr>,
         \<lparr>x = 3602879701896397 / 18014398509481984,
            y = 3602879701896397 / 36028797018963968\<rparr>,
         \<lparr>x = 5404319552844595 / 4503599627370496,
            y = 2476979795053773 / 2251799813685248\<rparr>,
         \<lparr>x = 5404319552844595 / 9007199254740992,
            y = 5404319552844595 / 9007199254740992\<rparr>,
         \<lparr>x = 2, y = 1\<rparr>,
         \<lparr>x = 3602879701896397 / 18014398509481984,
            y = 3602879701896397 / 36028797018963968\<rparr>,
         \<lparr>x = 2476979795053773 / 1125899906842624,
            y = 2476979795053773 / 2251799813685248\<rparr>,
         \<lparr>x = 5404319552844595 / 9007199254740992,
            y = 5404319552844595 / 9007199254740992\<rparr>],
      objs = [Player 2 3 (Some 4), Coin 7 7 8 0, Coin 11 11 12 0],
      width = 3, height = 3,
      grid = [[None, None, None], [None, None, None],
              [Some ''lava'', Some ''lava'', Some ''lava'']],
      actors = [0, 1, 2], player = Some 0, status = None, finishDelay = None\<rparr>"

text \<open>
  The one-coin level after the player has run to the right for one sub-step of
  \<open>maxStep\<close> seconds and has touched the lava below.
\<close>

definition demo_lost :: world where
  "demo_lost =
     \<lparr>vecs =
        [\<lparr>x = 0, y = 1\<rparr>, \<lparr>x = 0, y = - (1 / 2)\<rparr>, \<lparr>x = 0, y = 1 / 2\<rparr>,
         \<lparr>x = 3602879701896397 / 4503599627370496,
            y = 6530219459687219 / 4503599627370496\<rparr>,
         \<lparr>x = 7, y = 0\<rparr>, \<lparr>x = 1, y = 1\<rparr>,
         \<lparr>x = 3602879701896397 / 18014398509481984,
            y = 3602879701896397 / 36028797018963968\<rparr>,
         \<lparr>x = 5404319552844595 / 4503599627370496,
            y = 2476979795053773 / 2251799813685248\<rparr>,
         \<lparr>x = 5404319552844595 / 9007199254740992,
            y = 5404319552844595 / 9007199254740992\<rparr>,
         \<lparr>x = 6305039478318695 / 18014398509481984, y = 0\<rparr>,
         \<lparr>x = 6305039478318695 / 18014398509481984,
            y = 2476979795053773 / 4503599627370496\<rparr>,
         \<lparr>x = 0, y = 1351079888211149 / 18014398509481984\<rparr>,
         \<lparr>x = 6305039478318695 / 18014398509481984,
            y = 2589569785738035 / 4503599627370496\<rparr>],
      objs = [Player 10 3 (Some 4), Coin 7 7 8 0], width = 2, height = 3,
      grid = [[None, None], [None, None], [Some ''lava'', Some ''lava'']],
      actors = [0, 1], player = Some 0, status = Some ''lost'',
      finishDelay = Some 1\<rparr>"

text \<open>The one-coin level after \<open>moveX\<close> alone, for the same sub-step.\<close>

definition demo_moved :: world where
  "demo_moved = demo_level
     \<lparr>vecs := (vecs demo_level)[4 := \<lparr>x = 7, y = 0\<rparr>]
         @ [\<lparr>x = 6305039478318695 / 18014398509481984, y = 0\<rparr>,
            \<lparr>x = 6305039478318695 / 18014398509481984, y = 1 / 2\<rparr>],
      objs := [Player 10 3 (Some 4), Coin 7 7 8 0]\<rparr>"


text \<open>The same level with an empty row between the player and the lava.\<close>

definition fall_plan :: "string list" where
  "fall_plan = [''  '', ''@o'', ''  '', ''!!'']"

definition fall_level :: world where
  "fall_level = demo_level
     \<lparr>height := 4, grid := [[None, None], [None, None], [None, None], [Some ''lava'', Some ''lava'']]\<rparr>"

text \<open>The right arrow key is held.\<close>

definition demo_keys :: keys where
  "demo_keys = \<lparr>left = False, right = True, up = False\<rparr>"

text \<open>
  A level with a horizontally moving lava block in the open, a dripping one and a
  horizontally moving one at the right border, above a floor; and the same level when the
  dripping lava has fallen to just above the floor.
\<close>

definition lava_plan :: "string list" where
  "lava_plan = [''=v='', ''@  '', ''xxx'']"

definition lava_level :: world where
  "lava_level =
     \<lparr>vecs =
        [\<lparr>x = 0, y = 0\<rparr>, \<lparr>x = 1, y = 1\<rparr>, \<lparr>x = 2, y = 0\<rparr>, \<lparr>x = 1, y = 0\<rparr>,
         \<lparr>x = 1, y = 1\<rparr>, \<lparr>x = 0, y = 3\<rparr>, \<lparr>x = 2, y = 0\<rparr>, \<lparr>x = 1, y = 1\<rparr>,
         \<lparr>x = 2, y = 0\<rparr>, \<lparr>x = 0, y = 1\<rparr>, \<lparr>x = 0, y = - (1 / 2)\<rparr>,
         \<lparr>x = 0, y = 1 / 2\<rparr>,
         \<lparr>x = 3602879701896397 / 4503599627370496, y = 3 / 2\<rparr>,
         \<lparr>x = 0, y = 0\<rparr>],
      objs = [Lava 0 1 (Some 2) None, Lava 3 4 (Some 5) (Some 3),
              Lava 6 7 (Some 8) None, Player 11 12 (Some 13)],
      width = 3, height = 3,
      grid = [[None, None, None], [None, None, None],
              [Some ''wall'', Some ''wall'', Some ''wall'']],
      actors = [0, 1, 2, 3], player = Some 3, status = None, finishDelay = None\<rparr>"

definition drip_level :: world where
  "drip_level = lava_level
     \<lparr>vecs := vecs lava_level @ [\<lparr>x = 1, y = 31 / 32\<rparr>],
      objs := (objs lava_level)[1 := Lava 14 4 (Some 5) (Some 3)]\<rparr>"

text \<open>The up arrow key is held.\<close>

definition up_keys :: keys where
  "up_keys = \<lparr>left = False, right = False, up = True\<rparr>"

section \<open>Evaluation on concrete inputs\<close>

text \<open>
  The rounding function is unfolded at numerals only, so that the simplifier never
  unfolds it on a term with variables.
\<close>

lemmas fl_num =
  fl_def [of "numeral a / numeral b"] fl_def [of "numeral a"]
  fl_def [of "- (numeral a / numeral b)"] fl_def [of "- numeral a"]
  fl_def [of 0] fl_def [of 1] fl_def [of "- 1"]
  fl_def [of "1 / numeral b"] fl_def [of "- (1 / numeral b)"]
  ulp_exp_def [of "numeral a / numeral b"] ulp_exp_def [of "numeral a"]
  ulp_exp_def [of "- (numeral a / numeral b)"] ulp_exp_def [of "- numeral a"]
  ulp_exp_def [of 0] ulp_exp_def [of 1] ulp_exp_def [of "- 1"]
  ulp_exp_def [of "1 / numeral b"] ulp_exp_def [of "- (1 / numeral b)"]
  round_even_def [of "numeral a / numeral b"] round_even_def [of "numeral a"]
  round_even_def [of "- (numeral a / numeral b)"] round_even_def [of "- numeral a"]
  round_even_def [of 0] round_even_def [of 1] round_even_def [of "- 1"]
  round_even_def [of "1 / numeral b"] round_even_def [of "- (1 / numeral b)"]
  lg2.simps [of "numeral a / numeral b"] lg2.simps [of "numeral a"]
  lg2.simps [of 0] lg2.simps [of 1] lg2.simps [of "1 / numeral b"]
  for a b

lemmas fl_eval = fl_num js_add_def js_sub_def js_mul_def

lemmas heap_eval =
  new_Vector_def Vector_plus_def Vector_times_def vec_def obj_def set_x_def set_y_def
  set_pos_def set_speed_def new_obj_def


lemma coins_level_built: "new_Level no_random coins_plan = Inr coins_level"
  by (simp add: new_Level_def coins_plan_def no_random_def coins_level_def actorChars_def
      new_Player_def new_Coin_def new_Lava_def heap_eval fl_eval upt_rec Math_PI_def)

lemma fall_level_built: "new_Level no_random fall_plan = Inr fall_level"
  by (simp add: new_Level_def fall_plan_def no_random_def fall_level_def demo_level_def
      actorChars_def new_Player_def new_Coin_def new_Lava_def heap_eval fl_eval upt_rec
      Math_PI_def)

lemma lava_level_built: "new_Level no_random lava_plan = Inr lava_level"
  by (simp add: new_Level_def lava_plan_def no_random_def lava_level_def actorChars_def
      new_Player_def new_Coin_def new_Lava_def heap_eval fl_eval upt_rec Math_PI_def)


lemmas obstacle_eval =
  obstacleAt_def scan_rows.simps scan_row.simps grid_at_def truthy_def

lemmas act_eval =
  Player_act_def Player_moveX_def Player_moveY_def actorAt_def playerTouched_def
  playerXSpeed_def gravity_def jumpSpeed_def maxStep_def

section \<open>Collision response: \<open>playerTouched\<close>\<close>

text \<open>
  C4. \<open>playerTouched("lava", ...)\<close> sets \<open>status\<close> to \<open>"lost"\<close> and \<open>finishDelay\<close> to \<open>1\<close>
  when \<open>status\<close> is still \<open>null\<close>, and changes nothing else; when \<open>status\<close> is already
  set, the call leaves the whole level state (status, finishDelay, actors and everything
  else) as it was.
\<close>

theorem C4_playerTouched_lava:
  "(status w = None \<longrightarrow>
      playerTouched ''lava'' a w = w\<lparr>status := Some ''lost'', finishDelay := Some 1\<rparr>) \<and>
   (status w \<noteq> None \<longrightarrow> playerTouched ''lava'' a w = w)"
  by (simp add: playerTouched_def)

theorem C4_playerTouched_lava_witness:
  "status demo_level = None \<and>
   playerTouched ''lava'' None demo_level
     = demo_level\<lparr>status := Some ''lost'', finishDelay := Some 1\<rparr> \<and>
   status (demo_level\<lparr>status := Some ''won'', finishDelay := Some (1 / 2)\<rparr>) \<noteq> None \<and>
   playerTouched ''lava'' None (demo_level\<lparr>status := Some ''won'', finishDelay := Some (1 / 2)\<rparr>)
     = demo_level\<lparr>status := Some ''won'', finishDelay := Some (1 / 2)\<rparr>"
  using C4_playerTouched_lava [of demo_level None]
    C4_playerTouched_lava [of "demo_level\<lparr>status := Some ''won'', finishDelay := Some (1 / 2)\<rparr>" None]
  by (simp add: demo_level_def)

text \<open>
  C3. \<open>playerTouched("coin", c)\<close> replaces \<open>actors\<close> by the actors other than \<open>c\<close>, in
  their old order, and changes no actor object; when \<open>c\<close> occurs in \<open>actors\<close> (once, as
  every object does), exactly that entry disappears. If no actor of type \<open>"coin"\<close> is
  left afterwards, \<open>status\<close> becomes \<open>"won"\<close> and \<open>finishDelay\<close> becomes \<open>1\<close>; if a coin is
  left, \<open>status\<close> and \<open>finishDelay\<close> keep their values, so an unset status stays unset.
\<close>

theorem C3_playerTouched_coin:
  "actors (playerTouched ''coin'' (Some c) w) = filter (\<lambda>a. a \<noteq> c) (actors w) \<and>
   objs (playerTouched ''coin'' (Some c) w) = objs w \<and>
   (distinct (actors w) \<longrightarrow> c \<in> set (actors w) \<longrightarrow>
      (\<exists>before after. actors w = before @ c # after \<and>
         actors (playerTouched ''coin'' (Some c) w) = before @ after)) \<and>
   ((\<forall>b \<in> set (actors (playerTouched ''coin'' (Some c) w)). actor_type (obj w b) \<noteq> ''coin'') \<longrightarrow>
      status (playerTouched ''coin'' (Some c) w) = Some ''won'' \<and>
      finishDelay (playerTouched ''coin'' (Some c) w) = Some 1) \<and>
   ((\<exists>b \<in> set (actors (playerTouched ''coin'' (Some c) w)). actor_type (obj w b) = ''coin'') \<longrightarrow>
      status (playerTouched ''coin'' (Some c) w) = status w \<and>
      finishDelay (playerTouched ''coin'' (Some c) w) = finishDelay w)"
proof -
  let ?w' = "playerTouched ''coin'' (Some c) w"
  have act: "actors ?w' = filter (\<lambda>a. a \<noteq> c) (actors w)"
    by (simp add: playerTouched_def Let_def)
  have ob: "objs ?w' = objs w"
    by (simp add: playerTouched_def Let_def)
  have rem: "\<exists>before after. actors w = before @ c # after \<and> actors ?w' = before @ after"
    if d: "distinct (actors w)" and m: "c \<in> set (actors w)"
  proof -
    from m obtain before after where s: "actors w = before @ c # after"
      by (auto dest: split_list)
    with d have "c \<notin> set before" "c \<notin> set after" by auto
    then have "filter (\<lambda>a. a \<noteq> c) before = before" "filter (\<lambda>a. a \<noteq> c) after = after"
      by (auto simp: filter_id_conv)
    then have "filter (\<lambda>a. a \<noteq> c) (before @ c # after) = before @ after"
      by simp
    with s act show ?thesis by auto
  qed
  have won: "status ?w' = Some ''won'' \<and> finishDelay ?w' = Some 1"
    if "\<forall>b \<in> set (actors ?w'). actor_type (obj w b) \<noteq> ''coin''"
    using that by (auto simp: playerTouched_def Let_def list_ex_iff obj_def)
  have keep: "status ?w' = status w \<and> finishDelay ?w' = finishDelay w"
    if "\<exists>b \<in> set (actors ?w'). actor_type (obj w b) = ''coin''"
    using that by (auto simp: playerTouched_def Let_def list_ex_iff obj_def)
  from act ob rem won keep show ?thesis by blast
qed

theorem C3_playerTouched_coin_witness:
  "distinct (actors demo_level) \<and> 1 \<in> set (actors demo_level) \<and>
   actor_type (obj demo_level 1) = ''coin'' \<and>
   actors (playerTouched ''coin'' (Some 1) demo_level) = [0] \<and>
   status (playerTouched ''coin'' (Some 1) demo_level) = Some ''won'' \<and>
   finishDelay (playerTouched ''coin'' (Some 1) demo_level) = Some 1 \<and>
   distinct (actors coins_level) \<and> 1 \<in> set (actors coins_level) \<and>
   actor_type (obj coins_level 1) = ''coin'' \<and>
   actors (playerTouched ''coin'' (Some 1) coins_level) = [0, 2] \<and>
   actor_type (obj coins_level 2) = ''coin'' \<and>
   status (playerTouched ''coin'' (Some 1) coins_level) = None \<and>
   finishDelay (playerTouched ''coin'' (Some 1) coins_level) = None"
  using C3_playerTouched_coin [of 1 demo_level] C3_playerTouched_coin [of 1 coins_level]
  by (simp add: demo_level_def coins_level_def obj_def)

section \<open>Obstacle queries: \<open>obstacleAt\<close>\<close>

text \<open>
  C2, as the code has it. The side and top checks come first: a rectangle whose left edge
  is left of \<open>0\<close>, whose right edge is beyond \<open>width\<close> or whose top is above \<open>0\<close> yields
  \<open>"wall"\<close>, also when its bottom is below \<open>height\<close>. A rectangle inside the horizontal
  bounds whose top is not above \<open>0\<close> and whose bottom is below \<open>height\<close> yields \<open>"lava"\<close>.
\<close>

theorem C2_obstacleAt_bounds:
  "(\<lfloor>x p\<rfloor> < 0 \<or> \<lceil>js_add (x p) (x sz)\<rceil> > int (width w) \<or> \<lfloor>y p\<rfloor> < 0
      \<longrightarrow> obstacleAt w p sz = Inr (Some ''wall'')) \<and>
   (0 \<le> \<lfloor>x p\<rfloor> \<and> \<lceil>js_add (x p) (x sz)\<rceil> \<le> int (width w) \<and> 0 \<le> \<lfloor>y p\<rfloor> \<and>
    \<lceil>js_add (y p) (y sz)\<rceil> > int (height w)
      \<longrightarrow> obstacleAt w p sz = Inr (Some ''lava''))"
  by (auto simp: obstacleAt_def Let_def)

theorem C2_obstacleAt_bounds_witness:
  "obstacleAt demo_level \<lparr>x = - (1 / 2), y = 5 / 2\<rparr> \<lparr>x = 1, y = 1\<rparr> = Inr (Some ''wall'') \<and>
   obstacleAt demo_level \<lparr>x = 1 / 2, y = 5 / 2\<rparr> \<lparr>x = 1, y = 1\<rparr> = Inr (Some ''lava'')"
  using C2_obstacleAt_bounds [where p = "\<lparr>x = - (1 / 2), y = 5 / 2\<rparr>" and sz = "\<lparr>x = 1, y = 1\<rparr>" and w = demo_level]
    C2_obstacleAt_bounds [where p = "\<lparr>x = 1 / 2, y = 5 / 2\<rparr>" and sz = "\<lparr>x = 1, y = 1\<rparr>" and w = demo_level]
  by (simp add: demo_level_def fl_eval)

text \<open>
  C2 as stated fails: in the example level (\<open>width = 2\<close>, \<open>height = 3\<close>) the rectangle at
  \<open>(2, 2.5)\<close> of size \<open>1 \<times> 1\<close> reaches below \<open>height\<close> and beyond the right border, and the
  answer is \<open>"wall"\<close>, not \<open>"lava"\<close>.
\<close>

theorem C2_counterexample:
  "\<lceil>js_add (y \<lparr>x = 2, y = 5 / 2\<rparr>) (y \<lparr>x = 1, y = 1\<rparr>)\<rceil> > int (height demo_level) \<and>
   obstacleAt demo_level \<lparr>x = 2, y = 5 / 2\<rparr> \<lparr>x = 1, y = 1\<rparr> = Inr (Some ''wall'')"
  by (simp add: obstacleAt_def demo_level_def fl_eval)

subsection \<open>The scan of the covered cells\<close>

lemma first_nonempty_simps [simp]:
  "first_nonempty [] = None"
  "first_nonempty (c # cs) = (if c \<noteq> None then c else first_nonempty cs)"
  by (simp_all add: first_nonempty_def)

lemma first_nonempty_append:
  "first_nonempty (cs @ ds) = (if first_nonempty cs \<noteq> None then first_nonempty cs else first_nonempty ds)"
  by (induction cs) auto

lemma first_nonempty_mem: "first_nonempty cs = Some k \<Longrightarrow> Some k \<in> set cs"
  by (induction cs) (auto split: if_splits)

lemma scan_row_cells:
  assumes "grid_ok w" "0 \<le> yy" "yy < int (height w)" "0 \<le> xx" "xEnd \<le> int (width w)"
  shows "scan_row w yy xx xEnd
           = Inr (first_nonempty (map (\<lambda>xx. grid w ! nat yy ! nat xx) [xx .. xEnd - 1]))"
  using assms
proof (induction w yy xx xEnd rule: scan_row.induct)
  case (1 w yy xx xEnd)
  show ?case
  proof (cases "xx < xEnd")
    case False
    then show ?thesis by (simp add: scan_row.simps [of w yy xx xEnd])
  next
    case True
    have row: "nat yy < length (grid w)" using "1.prems" by (simp add: grid_ok_def)
    then have rin: "grid w ! nat yy \<in> set (grid w)" by simp
    then have len: "length (grid w ! nat yy) = width w" and ne: "Some [] \<notin> set (grid w ! nat yy)"
      using "1.prems"(1) by (auto simp: grid_ok_def)
    have col: "nat xx < length (grid w ! nat yy)" using True "1.prems" len by simp
    have ga: "grid_at w yy xx = Inr (grid w ! nat yy ! nat xx)"
      using row col "1.prems" by (simp add: grid_at_def)
    have tr: "truthy (grid w ! nat yy ! nat xx) \<longleftrightarrow> grid w ! nat yy ! nat xx \<noteq> None"
      using ne col by (auto simp: truthy_def dest: nth_mem)
    have up: "[xx .. xEnd - 1] = xx # [xx + 1 .. xEnd - 1]"
      using True by (simp add: upto_rec1)
    show ?thesis
    proof (cases "grid w ! nat yy ! nat xx \<noteq> None")
      case True
      then show ?thesis using ga tr up \<open>xx < xEnd\<close>
        by (simp add: scan_row.simps [of w yy xx xEnd])
    next
      case False
      then have "\<not> truthy (grid w ! nat yy ! nat xx)" using tr by simp
      with "1.IH" [OF \<open>xx < xEnd\<close> ga this] "1.prems"
      have "scan_row w yy (xx + 1) xEnd
              = Inr (first_nonempty (map (\<lambda>xx. grid w ! nat yy ! nat xx) [xx + 1 .. xEnd - 1]))"
        by simp
      then show ?thesis using ga tr up False \<open>xx < xEnd\<close>
        by (simp add: scan_row.simps [of w yy xx xEnd])
    qed
  qed
qed

lemma scan_row_truthy:
  assumes "grid_ok w" "0 \<le> yy" "yy < int (height w)" "0 \<le> xx" "xEnd \<le> int (width w)"
  shows "truthy (first_nonempty (map (\<lambda>xx. grid w ! nat yy ! nat xx) [xx .. xEnd - 1]))
         \<longleftrightarrow> first_nonempty (map (\<lambda>xx. grid w ! nat yy ! nat xx) [xx .. xEnd - 1]) \<noteq> None"
proof -
  let ?cs = "map (\<lambda>xx. grid w ! nat yy ! nat xx) [xx .. xEnd - 1]"
  have row: "nat yy < length (grid w)" using assms by (simp add: grid_ok_def)
  then have rin: "grid w ! nat yy \<in> set (grid w)" by simp
  then have len: "length (grid w ! nat yy) = width w" and ne: "Some [] \<notin> set (grid w ! nat yy)"
    using assms(1) by (auto simp: grid_ok_def)
  have "set ?cs \<subseteq> set (grid w ! nat yy)"
    using assms len by (auto intro!: nth_mem)
  with ne have "Some [] \<notin> set ?cs" by blast
  then have "first_nonempty ?cs \<noteq> Some []" using first_nonempty_mem by metis
  then show ?thesis by (auto simp: truthy_def)
qed

lemma scan_rows_cells:
  assumes "grid_ok w" "0 \<le> yy" "yEnd \<le> int (height w)" "0 \<le> xStart" "xEnd \<le> int (width w)"
  shows "scan_rows w yy yEnd xStart xEnd
           = Inr (first_nonempty (concat (map (\<lambda>yy. map (\<lambda>xx. grid w ! nat yy ! nat xx)
                                                       [xStart .. xEnd - 1]) [yy .. yEnd - 1])))"
  using assms
proof (induction w yy yEnd xStart xEnd rule: scan_rows.induct)
  case (1 w yy yEnd xStart xEnd)
  show ?case
  proof (cases "yy < yEnd")
    case False
    then show ?thesis by (simp add: scan_rows.simps [of w yy yEnd xStart xEnd])
  next
    case True
    let ?row = "map (\<lambda>xx. grid w ! nat yy ! nat xx) [xStart .. xEnd - 1]"
    have yh: "yy < int (height w)" using True "1.prems" by simp
    have sr: "scan_row w yy xStart xEnd = Inr (first_nonempty ?row)"
      using scan_row_cells [OF "1.prems"(1,2) yh "1.prems"(4,5)] .
    have tr: "truthy (first_nonempty ?row) \<longleftrightarrow> first_nonempty ?row \<noteq> None"
      using scan_row_truthy [OF "1.prems"(1,2) yh "1.prems"(4,5)] .
    have up: "[yy .. yEnd - 1] = yy # [yy + 1 .. yEnd - 1]"
      using True by (simp add: upto_rec1)
    show ?thesis
    proof (cases "first_nonempty ?row \<noteq> None")
      case True
      then show ?thesis using sr tr up \<open>yy < yEnd\<close>
        by (simp add: scan_rows.simps [of w yy yEnd xStart xEnd] first_nonempty_append)
    next
      case False
      then have nt: "\<not> truthy (first_nonempty ?row)" using tr by simp
      have "scan_rows w (yy + 1) yEnd xStart xEnd
              = Inr (first_nonempty (concat (map (\<lambda>yy. map (\<lambda>xx. grid w ! nat yy ! nat xx)
                                                       [xStart .. xEnd - 1]) [yy + 1 .. yEnd - 1])))"
        using "1.IH" [OF \<open>yy < yEnd\<close> sr nt] "1.prems" by simp
      then show ?thesis using sr tr up False \<open>yy < yEnd\<close>
        by (simp add: scan_rows.simps [of w yy yEnd xStart xEnd] first_nonempty_append)
    qed
  qed
qed

text \<open>
  C7. For a rectangle whose covered cell range lies inside a well-formed grid,
  \<open>obstacleAt\<close> returns the first non-empty cell among the covered cells in row-major
  order, and \<open>undefined\<close> (\<open>None\<close>) if all of them are empty.
\<close>

theorem C7_obstacleAt_scan:
  assumes "grid_ok w"
    and "0 \<le> \<lfloor>x p\<rfloor>" and "\<lceil>js_add (x p) (x sz)\<rceil> \<le> int (width w)"
    and "0 \<le> \<lfloor>y p\<rfloor>" and "\<lceil>js_add (y p) (y sz)\<rceil> \<le> int (height w)"
  shows "obstacleAt w p sz = Inr (first_nonempty (covered_cells w p sz))"
  using assms scan_rows_cells [OF assms(1,4,5,2,3)]
  by (simp add: obstacleAt_def covered_cells_def Let_def)

theorem C7_obstacleAt_scan_witness:
  "grid_ok demo_level \<and>
   covered_cells demo_level \<lparr>x = 1 / 2, y = 1 / 2\<rparr> \<lparr>x = 1, y = 2\<rparr>
     = [None, None, None, None, Some ''lava'', Some ''lava''] \<and>
   obstacleAt demo_level \<lparr>x = 1 / 2, y = 1 / 2\<rparr> \<lparr>x = 1, y = 2\<rparr> = Inr (Some ''lava'') \<and>
   obstacleAt demo_level \<lparr>x = 1 / 2, y = 1 / 2\<rparr> \<lparr>x = 1, y = 1\<rparr> = Inr None"
  using C7_obstacleAt_scan [where w = demo_level and p = "\<lparr>x = 1 / 2, y = 1 / 2\<rparr>" and sz = "\<lparr>x = 1, y = 2\<rparr>"]
    C7_obstacleAt_scan [where w = demo_level and p = "\<lparr>x = 1 / 2, y = 1 / 2\<rparr>" and sz = "\<lparr>x = 1, y = 1\<rparr>"]
  by (simp add: demo_level_def fl_eval grid_ok_def covered_cells_def upto_rec1)


subsection \<open>Constructed levels have a well-formed background\<close>






section \<open>Actor motion\<close>

text \<open>\<open>obstacleAt\<close> reads the background only, and what it returns is \<open>undefined\<close> or truthy.\<close>

lemma scan_row_cong:
  "grid w' = grid w \<Longrightarrow> scan_row w' yy xx xEnd = scan_row w yy xx xEnd"
proof (induction w yy xx xEnd rule: scan_row.induct)
  case (1 w yy xx xEnd)
  have ga: "grid_at w' yy xx = grid_at w yy xx" using "1.prems" by (simp add: grid_at_def)
  show ?case
  proof (cases "xx < xEnd")
    case False
    then show ?thesis by (simp add: scan_row.simps [of _ yy xx xEnd])
  next
    case True
    show ?thesis
    proof (cases "grid_at w yy xx")
      case (Inl e)
      then show ?thesis using True ga by (simp add: scan_row.simps [of _ yy xx xEnd])
    next
      case (Inr c)
      show ?thesis
      proof (cases "truthy c")
        case True
        then show ?thesis using \<open>xx < xEnd\<close> ga Inr by (simp add: scan_row.simps [of _ yy xx xEnd])
      next
        case False
        with "1.IH" [OF True Inr False "1.prems"] show ?thesis
          using \<open>xx < xEnd\<close> ga Inr by (simp add: scan_row.simps [of _ yy xx xEnd])
      qed
    qed
  qed
qed

lemma scan_rows_cong:
  "grid w' = grid w \<Longrightarrow> scan_rows w' yy yEnd xStart xEnd = scan_rows w yy yEnd xStart xEnd"
proof (induction w yy yEnd xStart xEnd rule: scan_rows.induct)
  case (1 w yy yEnd xStart xEnd)
  have sr: "scan_row w' yy xStart xEnd = scan_row w yy xStart xEnd"
    using "1.prems" by (rule scan_row_cong)
  show ?case
  proof (cases "yy < yEnd")
    case False
    then show ?thesis by (simp add: scan_rows.simps [of _ yy yEnd xStart xEnd])
  next
    case True
    show ?thesis
    proof (cases "scan_row w yy xStart xEnd")
      case (Inl e)
      then show ?thesis using True sr by (simp add: scan_rows.simps [of _ yy yEnd xStart xEnd])
    next
      case (Inr r)
      show ?thesis
      proof (cases "truthy r")
        case True
        then show ?thesis using \<open>yy < yEnd\<close> sr Inr
          by (simp add: scan_rows.simps [of _ yy yEnd xStart xEnd])
      next
        case False
        with "1.IH" [OF True Inr False "1.prems"] show ?thesis
          using \<open>yy < yEnd\<close> sr Inr by (simp add: scan_rows.simps [of _ yy yEnd xStart xEnd])
      qed
    qed
  qed
qed

lemma obstacleAt_cong:
  "width w' = width w \<Longrightarrow> height w' = height w \<Longrightarrow> grid w' = grid w
     \<Longrightarrow> obstacleAt w' p sz = obstacleAt w p sz"
  by (simp add: obstacleAt_def Let_def scan_rows_cong [of w' w])

lemma scan_row_truthy_result: "scan_row w yy xx xEnd = Inr r \<Longrightarrow> r = None \<or> truthy r"
proof (induction w yy xx xEnd rule: scan_row.induct)
  case (1 w yy xx xEnd)
  then show ?case
    by (subst (asm) (2) scan_row.simps) (auto split: if_splits sum.splits)
qed

lemma scan_rows_truthy_result:
  "scan_rows w yy yEnd xStart xEnd = Inr r \<Longrightarrow> r = None \<or> truthy r"
proof (induction w yy yEnd xStart xEnd rule: scan_rows.induct)
  case (1 w yy yEnd xStart xEnd)
  then show ?case
    by (subst (asm) (2) scan_rows.simps) (auto split: if_splits sum.splits)
qed

lemma obstacleAt_truthy: "obstacleAt w p sz = Inr r \<Longrightarrow> truthy r \<longleftrightarrow> r \<noteq> None"
  by (auto simp: obstacleAt_def Let_def truthy_def split: if_splits
      dest: scan_rows_truthy_result)


lemma playerTouched_vecs:
  "playerTouched k a (w\<lparr>vecs := vs\<rparr>) = (playerTouched k a w)\<lparr>vecs := vs\<rparr>"
  by (simp add: playerTouched_def Let_def obj_def)

lemma playerTouched_heap [simp]:
  "vecs (playerTouched k a w) = vecs w" "objs (playerTouched k a w) = objs w"
  "width (playerTouched k a w) = width w" "height (playerTouched k a w) = height w"
  "grid (playerTouched k a w) = grid w"
  by (simp_all add: playerTouched_def Let_def)

lemma obstacleAt_heap [simp]:
  "obstacleAt (w\<lparr>vecs := vs\<rparr>) p sz = obstacleAt w p sz"
  "obstacleAt (w\<lparr>objs := os\<rparr>) p sz = obstacleAt w p sz"
  by (rule obstacleAt_cong; simp)+

text \<open>
  C5. Let \<open>vy\<close> be the vertical speed after gravity, \<open>speed.y + step * 30\<close>, and let the
  tentative position be \<open>pos + (0, vy * step)\<close>, for a player whose speed Vector is a
  different object from its position and size Vectors. If \<open>obstacleAt\<close> reports an
  obstacle \<open>k\<close> there, the position stays as it was, the level is what
  \<open>playerTouched(k)\<close> makes of it, and the vertical speed becomes \<open>-17\<close> if the up key is
  held and \<open>vy\<close> is positive, and \<open>0\<close> otherwise. If no obstacle is reported, the position
  is the tentative position, the vertical speed is \<open>vy\<close>, and the level is otherwise
  unchanged. The horizontal speed is not touched.
\<close>

theorem C5_Player_moveY:
  fixes step :: real and ks :: keys and this p s v :: ref and w :: world
  defines "vy \<equiv> js_add (y (vec w v)) (js_mul step gravity)"
  defines "tent \<equiv> \<lparr>x = js_add (x (vec w p)) 0, y = js_add (y (vec w p)) (js_mul vy step)\<rparr>"
  assumes player: "obj w this = Player p s (Some v)"
    and valid: "this < length (objs w)" "p < length (vecs w)" "s < length (vecs w)"
      "v < length (vecs w)"
    and separate: "v \<noteq> p" "v \<noteq> s"
  shows "(\<forall>k. obstacleAt w tent (vec w s) = Inr (Some k) \<longrightarrow>
           (\<exists>w'. Player_moveY step ks this w = Inr w' \<and>
              obj w' this = Player p s (Some v) \<and> vec w' p = vec w p \<and>
              w'\<lparr>vecs := vecs w\<rparr> = playerTouched k None w \<and>
              vec w' v = (vec w v)\<lparr>y := if up ks \<and> 0 < vy then - 17 else 0\<rparr>)) \<and>
         (obstacleAt w tent (vec w s) = Inr None \<longrightarrow>
           (\<exists>w' q. Player_moveY step ks this w = Inr w' \<and>
              obj w' this = Player q s (Some v) \<and> vec w' q = tent \<and>
              w'\<lparr>vecs := vecs w, objs := objs w\<rparr> = w \<and>
              vec w' v = (vec w v)\<lparr>y := vy\<rparr>))"
proof -
  have hit: "\<exists>w'. Player_moveY step ks this w = Inr w' \<and>
              obj w' this = Player p s (Some v) \<and> vec w' p = vec w p \<and>
              w'\<lparr>vecs := vecs w\<rparr> = playerTouched k None w \<and>
              vec w' v = (vec w v)\<lparr>y := if up ks \<and> 0 < vy then - 17 else 0\<rparr>"
    if k: "obstacleAt w tent (vec w s) = Inr (Some k)" for k
  proof -
    have tr: "truthy (Some k)" using obstacleAt_truthy [OF k] by simp
    show ?thesis
      using k tr player valid separate
      by (simp add: Player_moveY_def Let_def set_y_def new_Vector_def Vector_plus_def vec_def
          obj_def nth_append tent_def vy_def playerTouched_vecs jumpSpeed_def)
  qed
  have free: "\<exists>w' q. Player_moveY step ks this w = Inr w' \<and>
              obj w' this = Player q s (Some v) \<and> vec w' q = tent \<and>
              w'\<lparr>vecs := vecs w, objs := objs w\<rparr> = w \<and>
              vec w' v = (vec w v)\<lparr>y := vy\<rparr>"
    if n: "obstacleAt w tent (vec w s) = Inr None"
    using n player valid separate
    by (simp add: Player_moveY_def Let_def set_y_def new_Vector_def Vector_plus_def vec_def
        obj_def nth_append tent_def vy_def truthy_def set_pos_def)
  from hit free show ?thesis by blast
qed


theorem C5_Player_moveY_witness:
  "obstacleAt demo_level \<lparr>x = 0, y = 271 / 512\<rparr> (vec demo_level 3) = Inr (Some ''lava'') \<and>
   (\<exists>w'. Player_moveY (1 / 32) up_keys 0 demo_level = Inr w' \<and>
      vec w' 2 = \<lparr>x = 0, y = 1 / 2\<rparr> \<and> vec w' 4 = \<lparr>x = 0, y = - 17\<rparr> \<and>
      status w' = Some ''lost'') \<and>
   obstacleAt fall_level \<lparr>x = 0, y = 271 / 512\<rparr> (vec fall_level 3) = Inr None \<and>
   (\<exists>w' q. Player_moveY (1 / 32) up_keys 0 fall_level = Inr w' \<and>
      obj w' 0 = Player q 3 (Some 4) \<and> vec w' q = \<lparr>x = 0, y = 271 / 512\<rparr> \<and>
      vec w' 4 = \<lparr>x = 0, y = 15 / 16\<rparr> \<and> status w' = None)"
proof -
  have d: "obj demo_level 0 = Player 2 3 (Some 4)" "obj fall_level 0 = Player 2 3 (Some 4)"
    by (simp_all add: obj_def demo_level_def fall_level_def)
  have len: "0 < length (objs demo_level)" "2 < length (vecs demo_level)"
    "3 < length (vecs demo_level)" "4 < length (vecs demo_level)"
    "0 < length (objs fall_level)" "2 < length (vecs fall_level)"
    "3 < length (vecs fall_level)" "4 < length (vecs fall_level)"
    by (simp_all add: demo_level_def fall_level_def)
  have ne: "(4::nat) \<noteq> 2" "(4::nat) \<noteq> 3" by simp_all
  have vy: "js_add (y (vec demo_level 4)) (js_mul (1 / 32) gravity) = 15 / 16"
    "js_add (y (vec fall_level 4)) (js_mul (1 / 32) gravity) = 15 / 16"
    by (simp_all add: vec_def demo_level_def fall_level_def gravity_def fl_eval)
  have tent: "js_add (x (vec demo_level 2)) 0 = 0"
    "js_add (y (vec demo_level 2)) (js_mul (15 / 16) (1 / 32)) = 271 / 512"
    "js_add (x (vec fall_level 2)) 0 = 0"
    "js_add (y (vec fall_level 2)) (js_mul (15 / 16) (1 / 32)) = 271 / 512"
    by (simp_all add: vec_def demo_level_def fall_level_def fl_eval)
  have o1: "obstacleAt demo_level \<lparr>x = 0, y = 271 / 512\<rparr> (vec demo_level 3) = Inr (Some ''lava'')"
    by (simp add: obstacleAt_def vec_def demo_level_def fl_eval scan_rows.simps scan_row.simps
        grid_at_def truthy_def)
  have o2: "obstacleAt fall_level \<lparr>x = 0, y = 271 / 512\<rparr> (vec fall_level 3) = Inr None"
    by (simp add: obstacleAt_def vec_def demo_level_def fall_level_def fl_eval scan_rows.simps
        scan_row.simps grid_at_def truthy_def)
  note hit = C5_Player_moveY [where step = "1 / 32" and ks = up_keys,
      OF d(1) len(1-4) ne, unfolded vy tent]
  note free = C5_Player_moveY [where step = "1 / 32" and ks = up_keys,
      OF d(2) len(5-8) ne, unfolded vy tent]
  from hit o1 obtain w1 where w1: "Player_moveY (1 / 32) up_keys 0 demo_level = Inr w1"
    "vec w1 2 = vec demo_level 2"
    "w1\<lparr>vecs := vecs demo_level\<rparr> = playerTouched ''lava'' None demo_level"
    "vec w1 4 = (vec demo_level 4)\<lparr>y := if up up_keys \<and> (0::real) < 15 / 16 then - 17 else 0\<rparr>"
    by blast
  from free o2 obtain w2 q where w2: "Player_moveY (1 / 32) up_keys 0 fall_level = Inr w2"
    "obj w2 0 = Player q 3 (Some 4)" "vec w2 q = \<lparr>x = 0, y = 271 / 512\<rparr>"
    "w2\<lparr>vecs := vecs fall_level, objs := objs fall_level\<rparr> = fall_level"
    "vec w2 4 = (vec fall_level 4)\<lparr>y := 15 / 16\<rparr>"
    by blast
  have "status w1 = status (w1\<lparr>vecs := vecs demo_level\<rparr>)" by simp
  also have "\<dots> = Some ''lost''"
    unfolding w1(3) by (simp add: playerTouched_def demo_level_def)
  finally have s1: "status w1 = Some ''lost''" .
  have "status w2 = status (w2\<lparr>vecs := vecs fall_level, objs := objs fall_level\<rparr>)" by simp
  also have "\<dots> = None"
    unfolding w2(4) by (simp add: fall_level_def demo_level_def)
  finally have s2: "status w2 = None" .
  have a: "\<exists>w'. Player_moveY (1 / 32) up_keys 0 demo_level = Inr w' \<and>
      vec w' 2 = \<lparr>x = 0, y = 1 / 2\<rparr> \<and> vec w' 4 = \<lparr>x = 0, y = - 17\<rparr> \<and>
      status w' = Some ''lost''"
    using w1 s1 by (intro exI [of _ w1]) (simp add: vec_def demo_level_def up_keys_def)
  have b: "\<exists>w' q. Player_moveY (1 / 32) up_keys 0 fall_level = Inr w' \<and>
      obj w' 0 = Player q 3 (Some 4) \<and> vec w' q = \<lparr>x = 0, y = 271 / 512\<rparr> \<and>
      vec w' 4 = \<lparr>x = 0, y = 15 / 16\<rparr> \<and> status w' = None"
    using w2 s2
    by (intro exI [of _ w2] exI [of _ q]) (simp add: vec_def demo_level_def fall_level_def)
  from o1 o2 a b show ?thesis by blast
qed

text \<open>Rounding commutes with negation, so multiplying a double by \<open>-1\<close> negates it.\<close>

lemma round_even_uminus: "round_even (- r) = - round_even r"
proof -
  have b: "of_int \<lfloor>r\<rfloor> \<le> r" "r < of_int \<lfloor>r\<rfloor> + 1" by linarith+
  show ?thesis
  proof (cases "r = of_int \<lfloor>r\<rfloor>")
    case True
    then have "\<lfloor>- r\<rfloor> = - \<lfloor>r\<rfloor>" by (metis floor_of_int of_int_minus)
    with True show ?thesis by (simp add: round_even_def Let_def)
  next
    case False
    then have f: "\<lfloor>- r\<rfloor> = - \<lfloor>r\<rfloor> - 1"
      by (simp add: floor_minus ceiling_altdef)
    have lt: "of_int \<lfloor>r\<rfloor> < r" using False b by linarith
    show ?thesis
      using lt b by (auto simp: round_even_def Let_def f)
  qed
qed

lemma fl_uminus: "fl (- r) = - fl r"
  by (simp add: fl_def ulp_exp_def round_even_uminus)

lemma js_mul_minus_one: "is_double a \<Longrightarrow> js_mul a (- 1) = - a"
  by (simp add: js_mul_def fl_uminus is_double_def)

text \<open>
  C6. The tentative position of a lava block is \<open>pos + speed * step\<close>. If it is
  unobstructed, the block moves there and keeps its speed. Otherwise, if it remembers a
  reset position (\<open>repeatPos\<close>, set for \<open>v\<close>), its position becomes that Vector and the
  speed is unchanged; if it does not (\<open>=\<close> and \<open>|\<close>), it keeps its position and its
  speed becomes the old speed times \<open>-1\<close> on both axes, which is the negated speed.
  The level's status and actors are not touched.
\<close>

theorem C6_Lava_act:
  fixes step :: real and this p s v :: ref and rp :: "ref option" and w :: world
  defines "tent \<equiv> \<lparr>x = js_add (x (vec w p)) (js_mul (x (vec w v)) step),
                    y = js_add (y (vec w p)) (js_mul (y (vec w v)) step)\<rparr>"
  assumes lava: "obj w this = Lava p s (Some v) rp"
    and valid: "this < length (objs w)" "p < length (vecs w)" "s < length (vecs w)"
      "v < length (vecs w)" "\<forall>r. rp = Some r \<longrightarrow> r < length (vecs w)"
  shows "(obstacleAt w tent (vec w s) = Inr None \<longrightarrow>
           (\<exists>w' q. Lava_act step this w = Inr w' \<and>
              obj w' this = Lava q s (Some v) rp \<and> vec w' q = tent \<and>
              vec w' v = vec w v \<and> w'\<lparr>vecs := vecs w, objs := objs w\<rparr> = w)) \<and>
         (\<forall>k r. obstacleAt w tent (vec w s) = Inr (Some k) \<and> rp = Some r \<longrightarrow>
           (\<exists>w'. Lava_act step this w = Inr w' \<and>
              obj w' this = Lava r s (Some v) rp \<and> vec w' r = vec w r \<and>
              vec w' v = vec w v \<and> w'\<lparr>vecs := vecs w, objs := objs w\<rparr> = w)) \<and>
         (\<forall>k. obstacleAt w tent (vec w s) = Inr (Some k) \<and> rp = None \<longrightarrow>
           (\<exists>w' nv. Lava_act step this w = Inr w' \<and>
              obj w' this = Lava p s (Some nv) None \<and> vec w' p = vec w p \<and>
              vec w' nv = \<lparr>x = js_mul (x (vec w v)) (- 1), y = js_mul (y (vec w v)) (- 1)\<rparr> \<and>
              (is_double (x (vec w v)) \<and> is_double (y (vec w v)) \<longrightarrow>
                 vec w' nv = \<lparr>x = - x (vec w v), y = - y (vec w v)\<rparr>) \<and>
              w'\<lparr>vecs := vecs w, objs := objs w\<rparr> = w))"
proof -
  have free: "\<exists>w' q. Lava_act step this w = Inr w' \<and>
              obj w' this = Lava q s (Some v) rp \<and> vec w' q = tent \<and>
              vec w' v = vec w v \<and> w'\<lparr>vecs := vecs w, objs := objs w\<rparr> = w"
    if n: "obstacleAt w tent (vec w s) = Inr None"
    using n lava valid
    by (simp add: Lava_act_def Let_def new_Vector_def Vector_plus_def Vector_times_def vec_def
        obj_def nth_append tent_def truthy_def set_pos_def)
  have drip: "\<exists>w'. Lava_act step this w = Inr w' \<and>
              obj w' this = Lava r s (Some v) rp \<and> vec w' r = vec w r \<and>
              vec w' v = vec w v \<and> w'\<lparr>vecs := vecs w, objs := objs w\<rparr> = w"
    if k: "obstacleAt w tent (vec w s) = Inr (Some k)" and r: "rp = Some r" for k r
  proof -
    have tr: "truthy (Some k)" using obstacleAt_truthy [OF k] by simp
    show ?thesis
      using k r tr lava valid
      by (simp add: Lava_act_def Let_def new_Vector_def Vector_plus_def Vector_times_def
          vec_def obj_def nth_append tent_def set_pos_def)
  qed
  have bounce: "\<exists>w' nv. Lava_act step this w = Inr w' \<and>
              obj w' this = Lava p s (Some nv) None \<and> vec w' p = vec w p \<and>
              vec w' nv = \<lparr>x = js_mul (x (vec w v)) (- 1), y = js_mul (y (vec w v)) (- 1)\<rparr> \<and>
              (is_double (x (vec w v)) \<and> is_double (y (vec w v)) \<longrightarrow>
                 vec w' nv = \<lparr>x = - x (vec w v), y = - y (vec w v)\<rparr>) \<and>
              w'\<lparr>vecs := vecs w, objs := objs w\<rparr> = w"
    if k: "obstacleAt w tent (vec w s) = Inr (Some k)" and r: "rp = None" for k
  proof -
    have tr: "truthy (Some k)" using obstacleAt_truthy [OF k] by simp
    show ?thesis
      using k r tr lava valid
      by (simp add: Lava_act_def Let_def new_Vector_def Vector_plus_def Vector_times_def
          vec_def obj_def nth_append tent_def set_speed_def js_mul_minus_one)
  qed
  from free drip bounce show ?thesis by blast
qed


theorem C6_Lava_act_witness:
  "(\<exists>w' q. Lava_act (1 / 32) 0 lava_level = Inr w' \<and>
      obj w' 0 = Lava q 1 (Some 2) None \<and> vec w' q = \<lparr>x = 1 / 16, y = 0\<rparr> \<and>
      vec w' 2 = \<lparr>x = 2, y = 0\<rparr>) \<and>
   vec drip_level 14 = \<lparr>x = 1, y = 31 / 32\<rparr> \<and>
   (\<exists>w'. Lava_act (1 / 32) 1 drip_level = Inr w' \<and>
      obj w' 1 = Lava 3 4 (Some 5) (Some 3) \<and> vec w' 3 = \<lparr>x = 1, y = 0\<rparr> \<and>
      vec w' 5 = \<lparr>x = 0, y = 3\<rparr>) \<and>
   (\<exists>w' nv. Lava_act (1 / 32) 2 lava_level = Inr w' \<and>
      obj w' 2 = Lava 6 7 (Some nv) None \<and> vec w' 6 = \<lparr>x = 2, y = 0\<rparr> \<and>
      vec w' nv = \<lparr>x = - 2, y = 0\<rparr>)"
proof -
  have d: "obj lava_level 0 = Lava 0 1 (Some 2) None"
    "obj drip_level 1 = Lava 14 4 (Some 5) (Some 3)"
    "obj lava_level 2 = Lava 6 7 (Some 8) None"
    by (simp_all add: obj_def lava_level_def drip_level_def)
  have len: "0 < length (objs lava_level)" "0 < length (vecs lava_level)"
    "1 < length (vecs lava_level)" "2 < length (vecs lava_level)"
    "\<forall>r. (None :: ref option) = Some r \<longrightarrow> r < length (vecs lava_level)"
    "1 < length (objs drip_level)" "14 < length (vecs drip_level)"
    "4 < length (vecs drip_level)" "5 < length (vecs drip_level)"
    "\<forall>r. Some (3 :: ref) = Some r \<longrightarrow> r < length (vecs drip_level)"
    "2 < length (objs lava_level)" "6 < length (vecs lava_level)"
    "7 < length (vecs lava_level)" "8 < length (vecs lava_level)"
    by (simp_all add: lava_level_def drip_level_def)
  have tent:
    "js_add (x (vec lava_level 0)) (js_mul (x (vec lava_level 2)) (1 / 32)) = 1 / 16"
    "js_add (y (vec lava_level 0)) (js_mul (y (vec lava_level 2)) (1 / 32)) = 0"
    "js_add (x (vec drip_level 14)) (js_mul (x (vec drip_level 5)) (1 / 32)) = 1"
    "js_add (y (vec drip_level 14)) (js_mul (y (vec drip_level 5)) (1 / 32)) = 17 / 16"
    "js_add (x (vec lava_level 6)) (js_mul (x (vec lava_level 8)) (1 / 32)) = 33 / 16"
    "js_add (y (vec lava_level 6)) (js_mul (y (vec lava_level 8)) (1 / 32)) = 0"
    by (simp_all add: vec_def lava_level_def drip_level_def fl_eval)
  have o1: "obstacleAt lava_level \<lparr>x = 1 / 16, y = 0\<rparr> (vec lava_level 1) = Inr None"
    by (simp add: obstacle_eval vec_def lava_level_def fl_eval)
  have o2: "obstacleAt drip_level \<lparr>x = 1, y = 17 / 16\<rparr> (vec drip_level 4) = Inr (Some ''wall'')"
    by (simp add: obstacle_eval vec_def lava_level_def drip_level_def fl_eval)
  have o3: "obstacleAt lava_level \<lparr>x = 33 / 16, y = 0\<rparr> (vec lava_level 7) = Inr (Some ''wall'')"
    by (simp add: obstacle_eval vec_def lava_level_def fl_eval)
  have dbl: "is_double (x (vec lava_level 8))" "is_double (y (vec lava_level 8))"
    by (simp_all add: is_double_def vec_def lava_level_def fl_eval)
  note free = C6_Lava_act [where step = "1 / 32", OF d(1) len(1-5), unfolded tent]
  note drip = C6_Lava_act [where step = "1 / 32", OF d(2) len(6-10), unfolded tent]
  note bounce = C6_Lava_act [where step = "1 / 32", OF d(3) len(11-14) len(5), unfolded tent]
  from free o1 obtain w1 q where w1: "Lava_act (1 / 32) 0 lava_level = Inr w1"
    "obj w1 0 = Lava q 1 (Some 2) None" "vec w1 q = \<lparr>x = 1 / 16, y = 0\<rparr>"
    "vec w1 2 = vec lava_level 2"
    by blast
  from drip o2 obtain w2 where w2: "Lava_act (1 / 32) 1 drip_level = Inr w2"
    "obj w2 1 = Lava 3 4 (Some 5) (Some 3)" "vec w2 3 = vec drip_level 3"
    "vec w2 5 = vec drip_level 5"
    by blast
  from bounce o3 dbl obtain w3 nv where w3: "Lava_act (1 / 32) 2 lava_level = Inr w3"
    "obj w3 2 = Lava 6 7 (Some nv) None" "vec w3 6 = vec lava_level 6"
    "vec w3 nv = \<lparr>x = - x (vec lava_level 8), y = - y (vec lava_level 8)\<rparr>"
    by blast
  have a: "\<exists>w' q. Lava_act (1 / 32) 0 lava_level = Inr w' \<and>
      obj w' 0 = Lava q 1 (Some 2) None \<and> vec w' q = \<lparr>x = 1 / 16, y = 0\<rparr> \<and>
      vec w' 2 = \<lparr>x = 2, y = 0\<rparr>"
    using w1 by (intro exI [of _ w1] exI [of _ q]) (simp add: vec_def lava_level_def)
  have b: "\<exists>w'. Lava_act (1 / 32) 1 drip_level = Inr w' \<and>
      obj w' 1 = Lava 3 4 (Some 5) (Some 3) \<and> vec w' 3 = \<lparr>x = 1, y = 0\<rparr> \<and>
      vec w' 5 = \<lparr>x = 0, y = 3\<rparr>"
    using w2 by (intro exI [of _ w2]) (simp add: vec_def lava_level_def drip_level_def)
  have c: "\<exists>w' nv. Lava_act (1 / 32) 2 lava_level = Inr w' \<and>
      obj w' 2 = Lava 6 7 (Some nv) None \<and> vec w' 6 = \<lparr>x = 2, y = 0\<rparr> \<and>
      vec w' nv = \<lparr>x = - 2, y = 0\<rparr>"
    using w3 by (intro exI [of _ w3] exI [of _ nv]) (simp add: vec_def lava_level_def)
  have e: "vec drip_level 14 = \<lparr>x = 1, y = 31 / 32\<rparr>"
    by (simp add: vec_def lava_level_def drip_level_def)
  from a b c e show ?thesis by blast
qed


section \<open>The status of a level\<close>

text \<open>
  C1 asks that a status, once set, is never changed again. The lava branch of
  \<open>playerTouched\<close> tests \<open>status == null\<close>; the coin branch does not, so removing the last
  coin of a lost level turns \<open>"lost"\<close> into \<open>"won"\<close>: here on the one-coin level, after
  the player has touched lava.
\<close>

theorem C1_status_rewritten:
  "status (playerTouched ''lava'' None demo_level) = Some ''lost'' \<and>
   status (playerTouched ''coin'' (Some 1) (playerTouched ''lava'' None demo_level)) = Some ''won''"
  by (simp add: playerTouched_def demo_level_def obj_def)

text \<open>
  The same happens in play: on the one-coin level with the right arrow held, the first
  sub-step of \<open>maxStep\<close> seconds drops the player onto the lava (\<open>"lost"\<close>), and the
  second one carries the sinking player into the coin (\<open>"won"\<close>).
\<close>

lemma demo_first_step: "Player_act maxStep demo_keys 0 demo_level = Inr demo_lost"
  by (simp add: act_eval obstacle_eval heap_eval fl_eval demo_keys_def demo_level_def demo_lost_def)

lemma demo_second_step:
  "(case Player_act maxStep demo_keys 0 demo_lost of Inl e \<Rightarrow> None | Inr w \<Rightarrow> status w) = Some ''won''"
  by (simp add: act_eval obstacle_eval heap_eval fl_eval demo_keys_def demo_lost_def)


section \<open>Level construction without a player\<close>

text \<open>
  The constructors of coins and lava add one actor object that is not a player, and leave
  the level's fields alone; so a plan without \<open>@\<close> yields a level without a player.
\<close>

lemma actorChars_not_player:
  "actorChars c = Some A \<Longrightarrow> c \<noteq> CHR ''@'' \<Longrightarrow> A = new_Coin \<or> A = new_Lava"
  by (auto simp: actorChars_def split: if_splits)

lemma new_Coin_result:
  "new_Coin r p ch w = (a, w') \<Longrightarrow>
     a = length (objs w) \<and> (\<exists>c. objs w' = objs w @ [c] \<and> actor_type c = ''coin'') \<and>
     actors w' = actors w \<and> grid w' = grid w \<and> width w' = width w"
  by (auto simp: new_Coin_def new_Vector_def Vector_plus_def new_obj_def Let_def)

lemma new_Lava_result:
  "new_Lava r p ch w = (a, w') \<Longrightarrow>
     a = length (objs w) \<and> (\<exists>c. objs w' = objs w @ [c] \<and> actor_type c = ''lava'') \<and>
     actors w' = actors w \<and> grid w' = grid w \<and> width w' = width w"
  by (auto simp: new_Lava_def new_Vector_def new_obj_def Let_def split: if_splits)

lemma no_player_push:
  assumes np: "no_player w" and A: "A = new_Coin \<or> A = new_Lava"
    and r: "A r p ch (snd (new_Vector a b w)) = (n, w')"
  shows "no_player (w'\<lparr>actors := actors w' @ [n]\<rparr>)"
proof -
  let ?w1 = "snd (new_Vector a b w)"
  have o1: "objs ?w1 = objs w" "actors ?w1 = actors w" by (simp_all add: new_Vector_def)
  have "n = length (objs ?w1) \<and> (\<exists>c. objs w' = objs ?w1 @ [c] \<and> actor_type c \<noteq> ''player'') \<and>
        actors w' = actors ?w1"
  proof (rule disjE [OF A])
    assume "A = new_Coin"
    with r have "new_Coin r p ch ?w1 = (n, w')" by simp
    from new_Coin_result [OF this] show ?thesis by auto
  next
    assume "A = new_Lava"
    with r have "new_Lava r p ch ?w1 = (n, w')" by simp
    from new_Lava_result [OF this] show ?thesis by auto
  qed
  then obtain c where c: "n = length (objs w)" "objs w' = objs w @ [c]"
    "actor_type c \<noteq> ''player''" "actors w' = actors w"
    unfolding o1 by blast
  show ?thesis
    unfolding no_player_def
  proof
    fix k assume "k \<in> set (actors (w'\<lparr>actors := actors w' @ [n]\<rparr>))"
    then have "k \<in> set (actors w) \<or> k = length (objs w)" using c by auto
    then show "k < length (objs (w'\<lparr>actors := actors w' @ [n]\<rparr>)) \<and>
               actor_type (obj (w'\<lparr>actors := actors w' @ [n]\<rparr>) k) \<noteq> ''player''"
    proof
      assume "k \<in> set (actors w)"
      with np have "k < length (objs w)" "actor_type (objs w ! k) \<noteq> ''player''"
        by (auto simp: no_player_def obj_def)
      then show ?thesis using c by (simp add: obj_def nth_append)
    next
      assume "k = length (objs w)"
      then show ?thesis using c by (simp add: obj_def)
    qed
  qed
qed

lemma build_line_no_player:
  "no_player w \<Longrightarrow> CHR ''@'' \<notin> set line
     \<Longrightarrow> no_player (snd (build_line rand line yy xs gridLine w))"
proof (induction xs arbitrary: gridLine w)
  case Nil
  then show ?case by simp
next
  case (Cons xx xs)
  show ?case
  proof (cases "xx < length line")
    case False
    then show ?thesis using Cons by simp
  next
    case True
    then have ne: "line ! xx \<noteq> CHR ''@''" using Cons.prems(2) by (metis nth_mem)
    show ?thesis
    proof (cases "actorChars (line ! xx)")
      case None
      then show ?thesis using True Cons by simp
    next
      case (Some A)
      obtain n w' where r: "A (rand xx yy) (length (vecs w)) (line ! xx)
                              (snd (new_Vector (of_nat xx) (of_nat yy) w)) = (n, w')"
        by (cases "A (rand xx yy) (length (vecs w)) (line ! xx)
                     (snd (new_Vector (of_nat xx) (of_nat yy) w))") auto
      have "no_player (w'\<lparr>actors := actors w' @ [n]\<rparr>)"
        using no_player_push [OF Cons.prems(1) actorChars_not_player [OF Some ne] r] .
      from Cons.IH [OF this Cons.prems(2)] show ?thesis
        using True Some r by (simp add: new_Vector_def)
    qed
  qed
qed

lemma build_grid_no_player:
  "no_player w \<Longrightarrow> \<forall>yy \<in> set ys. yy < length plan \<Longrightarrow> \<forall>line \<in> set plan. CHR ''@'' \<notin> set line
     \<Longrightarrow> no_player (build_grid rand plan ys w)"
proof (induction ys arbitrary: w)
  case Nil
  then show ?case by simp
next
  case (Cons yy ys)
  have "CHR ''@'' \<notin> set (plan ! yy)" using Cons.prems by simp
  from build_line_no_player [OF Cons.prems(1) this]
  have "no_player (snd (build_line rand (plan ! yy) yy [0..<width w] [] w))" .
  then have "no_player ((snd (build_line rand (plan ! yy) yy [0..<width w] [] w))
               \<lparr>grid := grid (snd (build_line rand (plan ! yy) yy [0..<width w] [] w))
                    @ [fst (build_line rand (plan ! yy) yy [0..<width w] [] w)]\<rparr>)"
    by (simp add: no_player_def obj_def)
  from Cons.IH [OF this] Cons.prems show ?case
    by (simp add: case_prod_beta)
qed

text \<open>
  C8, as the code has it. The constructor checks nothing: a non-empty plan without \<open>@\<close>
  yields a level whose \<open>player\<close> is \<open>undefined\<close> and whose actors contain no player. The
  only failure of the constructor is the \<open>TypeError\<close> of \<open>plan[0].length\<close> on an empty
  plan.
\<close>

theorem C8_no_player_no_error:
  "new_Level rand [] = Inl TypeError \<and>
   (plan \<noteq> [] \<and> (\<forall>line \<in> set plan. CHR ''@'' \<notin> set line) \<longrightarrow>
      (\<exists>w. new_Level rand plan = Inr w \<and> player w = None \<and>
           (\<forall>a \<in> set (actors w). actor_type (obj w a) \<noteq> ''player'')))"
proof -
  have e: "new_Level rand [] = Inl TypeError" by (simp add: new_Level_def)
  have "\<exists>w. new_Level rand plan = Inr w \<and> player w = None \<and>
           (\<forall>a \<in> set (actors w). actor_type (obj w a) \<noteq> ''player'')"
    if ne: "plan \<noteq> []" and at: "\<forall>line \<in> set plan. CHR ''@'' \<notin> set line"
  proof -
    from ne obtain line0 rest where p: "plan = line0 # rest" by (cases plan) auto
    let ?w0 = "\<lparr>vecs = [], objs = [], width = length line0, height = length plan,
                 grid = [], actors = [], player = None, status = None, finishDelay = None\<rparr>"
    let ?w1 = "build_grid rand plan [0..<length plan] ?w0"
    have "no_player ?w0" by (simp add: no_player_def)
    then have np: "no_player ?w1"
      using at by (intro build_grid_no_player) auto
    then have f: "find (\<lambda>a. actor_type (obj ?w1 a) = ''player'') (actors ?w1) = None"
      by (auto simp: find_None_iff no_player_def)
    have "new_Level rand plan = Inr (?w1\<lparr>player := None, status := None, finishDelay := None\<rparr>)"
      using f unfolding new_Level_def p [symmetric] by (simp add: p Let_def)
    with np show ?thesis by (auto simp: no_player_def obj_def)
  qed
  with e show ?thesis by blast
qed

theorem C8_no_player_no_error_witness:
  "[''o''] \<noteq> [] \<and> CHR ''@'' \<notin> set ''o'' \<and>
   (\<exists>w. new_Level no_random [''o''] = Inr w \<and> player w = None)"
  using C8_no_player_no_error [of no_random "[''o'']"] by auto

text \<open>
  C8 as stated fails: the plan \<open>["o"]\<close> has no \<open>@\<close>, and the constructor returns a level
  (with one coin and \<open>player\<close> undefined) instead of raising an error.
\<close>

theorem C8_counterexample:
  "new_Level no_random [''o''] =
     Inr \<lparr>vecs = [\<lparr>x = 0, y = 0\<rparr>,
                 \<lparr>x = 3602879701896397 / 18014398509481984,
                    y = 3602879701896397 / 36028797018963968\<rparr>,
                 \<lparr>x = 3602879701896397 / 18014398509481984,
                    y = 3602879701896397 / 36028797018963968\<rparr>,
                 \<lparr>x = 5404319552844595 / 9007199254740992,
                    y = 5404319552844595 / 9007199254740992\<rparr>],
          objs = [Coin 2 2 3 0], width = 1, height = 1, grid = [[None]], actors = [0],
          player = None, status = None, finishDelay = None\<rparr>"
  by (simp add: new_Level_def no_random_def actorChars_def new_Player_def new_Coin_def
      new_Lava_def heap_eval fl_eval upt_rec Math_PI_def)


section \<open>Vectors assigned in place\<close>

lemma vectors_kept_trans:
  "vectors_kept S w w1 \<Longrightarrow> vectors_kept T w1 w2 \<Longrightarrow> S \<subseteq> U \<Longrightarrow>
   (\<forall>r \<in> T. r \<in> U \<or> length (vecs w) \<le> r) \<Longrightarrow> vectors_kept U w w2"
  unfolding vectors_kept_def by (metis le_trans less_le_trans not_less subsetD)

lemma with_pos_fields [simp]:
  "pos (with_pos p a) = p" "asize (with_pos p a) = asize a" "speed (with_pos p a) = speed a"
  by (cases a; simp)+

lemma Vector_plus_kept:
  "Vector_plus a b w = (r, w') \<Longrightarrow> r = length (vecs w) \<and> vectors_kept {} w w' \<and> objs w' = objs w"
  by (auto simp: Vector_plus_def new_Vector_def vectors_kept_def nth_append)

lemma Vector_times_kept:
  "Vector_times a f w = (r, w') \<Longrightarrow> r = length (vecs w) \<and> vectors_kept {} w w' \<and> objs w' = objs w"
  by (auto simp: Vector_times_def new_Vector_def vectors_kept_def nth_append)

lemma Lava_act_kept: "Lava_act step this w = Inr w' \<Longrightarrow> vectors_kept {} w w'"
  by (auto simp: Lava_act_def Let_def Vector_plus_def Vector_times_def new_Vector_def
      set_pos_def set_speed_def vectors_kept_def nth_append
      split: option.splits sum.splits if_splits)

lemma Coin_act_kept: "Coin_act step this w = Inr w' \<Longrightarrow> vectors_kept {} w w'"
  by (auto simp: Coin_act_def Let_def Vector_plus_def new_Vector_def
      set_pos_def vectors_kept_def nth_append split: actor.splits)


lemma vectors_kept_refl [simp]: "vectors_kept S w w"
  by (simp add: vectors_kept_def)

lemma vectors_kept_step:
  "vectors_kept S w w1 \<Longrightarrow> vectors_kept T w1 w2 \<Longrightarrow> vectors_kept (S \<union> T) w w2"
  by (auto simp: vectors_kept_def)

lemma vectors_kept_mono: "vectors_kept S w w' \<Longrightarrow> S \<subseteq> T \<Longrightarrow> vectors_kept T w w'"
  by (auto simp: vectors_kept_def)

lemma vectors_kept_fresh:
  "vectors_kept (S \<union> T) w w' \<Longrightarrow> \<forall>r \<in> T. length (vecs w) \<le> r \<Longrightarrow> vectors_kept S w w'"
  unfolding vectors_kept_def by (metis UnE not_le)

lemma vectors_kept_eq: "vecs w' = vecs w \<Longrightarrow> vectors_kept S w w'"
  by (simp add: vectors_kept_def)

lemma set_x_kept: "vectors_kept {r} w (set_x r a w)" "objs (set_x r a w) = objs w"
  by (simp_all add: set_x_def vectors_kept_def)

lemma set_y_kept: "vectors_kept {r} w (set_y r a w)" "objs (set_y r a w) = objs w"
  by (simp_all add: set_y_def vectors_kept_def)

lemma new_Vector_kept:
  "vectors_kept {} w (snd (new_Vector a b w))" "objs (snd (new_Vector a b w)) = objs w"
  "fst (new_Vector a b w) = length (vecs w)"
  by (simp_all add: new_Vector_def vectors_kept_def nth_append)

lemma Vector_plus_snd_kept:
  "vectors_kept {} w (snd (Vector_plus a b w))" "objs (snd (Vector_plus a b w)) = objs w"
  "fst (Vector_plus a b w) = length (vecs w)"
  by (simp_all add: Vector_plus_def new_Vector_kept)

lemma set_pos_heap:
  "vecs (set_pos this q w) = vecs w"
  "obj (set_pos this q w) this
     = (if this < length (objs w) then with_pos q (obj w this) else obj w this)"
  by (simp_all add: set_pos_def obj_def list_update_beyond)

lemma obj_cong: "objs w' = objs w \<Longrightarrow> obj w' a = obj w a"
  by (simp add: obj_def)

lemma Player_moveX_kept:
  assumes "Player_moveX step ks this w = Inr w'"
  shows "\<exists>v. speed (obj w this) = Some v \<and> vectors_kept {v} w w' \<and>
             speed (obj w' this) = Some v \<and> asize (obj w' this) = asize (obj w this) \<and>
             (pos (obj w' this) = pos (obj w this) \<or> length (vecs w) \<le> pos (obj w' this))"
proof -
  from assms obtain v where v: "speed (obj w this) = Some v"
    by (auto simp: Player_moveX_def split: option.splits)
  define w1 where "w1 = set_x v 0 w"
  define w2 where "w2 = (if left ks then set_x v (js_sub (x (vec w1 v)) playerXSpeed) w1 else w1)"
  define w3 where "w3 = (if right ks then set_x v (js_add (x (vec w2 v)) playerXSpeed) w2 else w2)"
  define w4 where "w4 = snd (new_Vector (js_mul (x (vec w3 v)) step) 0 w3)"
  define motion where "motion = fst (new_Vector (js_mul (x (vec w3 v)) step) 0 w3)"
  define w5 where "w5 = snd (Vector_plus (pos (obj w4 this)) motion w4)"
  define newPos where "newPos = fst (Vector_plus (pos (obj w4 this)) motion w4)"
  have res: "(\<exists>k. w' = playerTouched k None w5) \<or> w' = set_pos this newPos w5"
    using assms
    unfolding Player_moveX_def v Let_def w1_def w2_def w3_def w4_def w5_def motion_def newPos_def
    by (auto simp: case_prod_beta split: sum.splits if_splits)
  have k1: "vectors_kept {v} w w1" "objs w1 = objs w"
    by (simp_all add: w1_def set_x_kept)
  have k2: "vectors_kept {v} w1 w2" "objs w2 = objs w1"
    by (simp_all add: w2_def set_x_kept)
  have k3: "vectors_kept {v} w2 w3" "objs w3 = objs w2"
    by (simp_all add: w3_def set_x_kept)
  have k4: "vectors_kept {} w3 w4" "objs w4 = objs w3"
    by (simp_all add: w4_def new_Vector_kept)
  have k5: "vectors_kept {} w4 w5" "objs w5 = objs w4"
    by (simp_all add: w5_def Vector_plus_snd_kept)
  have kept: "vectors_kept {v} w w5"
    using vectors_kept_step [OF vectors_kept_step [OF vectors_kept_step [OF
          vectors_kept_step [OF k1(1) k2(1)] k3(1)] k4(1)] k5(1)]
    by simp
  have o5: "objs w5 = objs w" using k1 k2 k3 k4 k5 by simp
  have np: "length (vecs w) \<le> newPos"
    using vectors_kept_step [OF vectors_kept_step [OF vectors_kept_step [OF k1(1) k2(1)] k3(1)] k4(1)]
    by (simp add: newPos_def Vector_plus_snd_kept vectors_kept_def)
  from res show ?thesis
  proof
    assume "\<exists>k. w' = playerTouched k None w5"
    then obtain k where w': "w' = playerTouched k None w5" ..
    have "vectors_kept {v} w w'" using kept by (simp add: w' vectors_kept_def)
    moreover have "obj w' this = obj w this" by (simp add: w' obj_def o5)
    ultimately show ?thesis using v by simp
  next
    assume w': "w' = set_pos this newPos w5"
    have "vectors_kept {v} w w'" using kept by (simp add: w' vectors_kept_def set_pos_heap)
    moreover have "obj w' this = (if this < length (objs w) then with_pos newPos (obj w this) else obj w this)"
      by (simp add: w' set_pos_heap o5 obj_cong [OF o5])
    ultimately show ?thesis using v np by simp
  qed
qed


lemma Player_moveY_kept:
  assumes "Player_moveY step ks this w = Inr w'"
  shows "\<exists>v. speed (obj w this) = Some v \<and> vectors_kept {v} w w' \<and>
             speed (obj w' this) = Some v \<and> asize (obj w' this) = asize (obj w this) \<and>
             (pos (obj w' this) = pos (obj w this) \<or> length (vecs w) \<le> pos (obj w' this))"
proof -
  from assms obtain v where v: "speed (obj w this) = Some v"
    by (auto simp: Player_moveY_def split: option.splits)
  define w1 where "w1 = set_y v (js_add (y (vec w v)) (js_mul step gravity)) w"
  define w2 where "w2 = snd (new_Vector 0 (js_mul (y (vec w1 v)) step) w1)"
  define motion where "motion = fst (new_Vector 0 (js_mul (y (vec w1 v)) step) w1)"
  define w3 where "w3 = snd (Vector_plus (pos (obj w2 this)) motion w2)"
  define newPos where "newPos = fst (Vector_plus (pos (obj w2 this)) motion w2)"
  have res: "(\<exists>k a. w' = set_y v a (playerTouched k None w3)) \<or> w' = set_pos this newPos w3"
    using assms
    unfolding Player_moveY_def v Let_def w1_def w2_def w3_def motion_def newPos_def
    by (auto simp: case_prod_beta split: sum.splits if_splits)
  have k1: "vectors_kept {v} w w1" "objs w1 = objs w"
    by (simp_all add: w1_def set_y_kept)
  have k2: "vectors_kept {} w1 w2" "objs w2 = objs w1"
    by (simp_all add: w2_def new_Vector_kept)
  have k3: "vectors_kept {} w2 w3" "objs w3 = objs w2"
    by (simp_all add: w3_def Vector_plus_snd_kept)
  have kept: "vectors_kept {v} w w3"
    using vectors_kept_step [OF vectors_kept_step [OF k1(1) k2(1)] k3(1)] by simp
  have o3: "objs w3 = objs w" using k1 k2 k3 by simp
  have np: "length (vecs w) \<le> newPos"
    using vectors_kept_step [OF k1(1) k2(1)]
    by (simp add: newPos_def Vector_plus_snd_kept vectors_kept_def)
  from res show ?thesis
  proof
    assume "\<exists>k a. w' = set_y v a (playerTouched k None w3)"
    then obtain k a where w': "w' = set_y v a (playerTouched k None w3)" by blast
    have "vectors_kept {} w3 (playerTouched k None w3)" by (simp add: vectors_kept_eq)
    from vectors_kept_step [OF vectors_kept_step [OF kept this]
        set_y_kept(1) [where r = v and a = a and w = "playerTouched k None w3"]]
    have "vectors_kept {v} w w'" by (simp add: w')
    moreover have "obj w' this = obj w this" by (simp add: w' obj_def o3 set_y_kept)
    ultimately show ?thesis using v by simp
  next
    assume w': "w' = set_pos this newPos w3"
    have "vectors_kept {v} w w'" using kept by (simp add: w' vectors_kept_def set_pos_heap)
    moreover have "obj w' this = (if this < length (objs w) then with_pos newPos (obj w this) else obj w this)"
      by (simp add: w' set_pos_heap o3 obj_cong [OF o3])
    ultimately show ?thesis using v np by simp
  qed
qed

lemma Player_act_kept:
  assumes "Player_act step ks this w = Inr w'"
  shows "\<exists>v. speed (obj w this) = Some v \<and>
             vectors_kept {v, pos (obj w this), asize (obj w this)} w w'"
proof -
  from assms obtain w1 w2 where m1: "Player_moveX step ks this w = Inr w1"
    and m2: "Player_moveY step ks this w1 = Inr w2"
    by (auto simp: Player_act_def split: sum.splits)
  define w3 where "w3 = (case actorAt w2 this of None \<Rightarrow> w2
     | Some other \<Rightarrow> playerTouched (actor_type (obj w2 other)) (Some other) w2)"
  define w4 where "w4 = set_y (pos (obj w3 this)) (js_add (y (vec w3 (pos (obj w3 this)))) step) w3"
  have res: "w' = set_y (asize (obj w4 this)) (js_sub (y (vec w4 (asize (obj w4 this)))) step) w4
             \<or> w' = w3"
    using assms
    by (auto simp: Player_act_def m1 m2 w3_def w4_def Let_def split: if_splits)
  from Player_moveX_kept [OF m1] obtain v where v: "speed (obj w this) = Some v"
    and k1: "vectors_kept {v} w w1" and s1: "speed (obj w1 this) = Some v"
    and a1: "asize (obj w1 this) = asize (obj w this)"
    and p1: "pos (obj w1 this) = pos (obj w this) \<or> length (vecs w) \<le> pos (obj w1 this)"
    by blast
  from Player_moveY_kept [OF m2] s1 have k2: "vectors_kept {v} w1 w2"
    and a2: "asize (obj w2 this) = asize (obj w1 this)"
    and p2: "pos (obj w2 this) = pos (obj w1 this) \<or> length (vecs w1) \<le> pos (obj w2 this)"
    by auto
  have h3: "vecs w3 = vecs w2" "objs w3 = objs w2"
    by (simp_all add: w3_def split: option.splits)
  have len1: "length (vecs w) \<le> length (vecs w1)" using k1 by (simp add: vectors_kept_def)
  have k12: "vectors_kept {v} w w2" using vectors_kept_step [OF k1 k2] by simp
  have k3: "vectors_kept {v} w w3"
    using vectors_kept_step [OF k12 vectors_kept_eq [OF h3(1), of "{}"]] by simp
  have p3: "pos (obj w3 this) = pos (obj w this) \<or> length (vecs w) \<le> pos (obj w3 this)"
    using p1 p2 len1 by (auto simp: obj_cong [OF h3(2)])
  have a3: "asize (obj w3 this) = asize (obj w this)"
    using a1 a2 by (simp add: obj_cong [OF h3(2)])
  from res show ?thesis
  proof
    assume "w' = w3"
    then show ?thesis using v vectors_kept_mono [OF k3] by auto
  next
    assume w': "w' = set_y (asize (obj w4 this)) (js_sub (y (vec w4 (asize (obj w4 this)))) step) w4"
    have o4: "objs w4 = objs w3" by (simp add: w4_def set_y_kept)
    have a4: "asize (obj w4 this) = asize (obj w this)"
      using a3 by (simp add: obj_cong [OF o4])
    have k4: "vectors_kept {pos (obj w3 this)} w3 w4" by (simp add: w4_def set_y_kept)
    have k5: "vectors_kept {asize (obj w this)} w4 w'" by (simp add: w' a4 set_y_kept)
    have all: "vectors_kept (({v} \<union> {pos (obj w3 this)}) \<union> {asize (obj w this)}) w w'"
      using vectors_kept_step [OF vectors_kept_step [OF k3 k4] k5] .
    have "vectors_kept {v, pos (obj w this), asize (obj w this)} w w'"
    proof (rule disjE [OF p3])
      assume "pos (obj w3 this) = pos (obj w this)"
      with all show ?thesis by (simp add: insert_commute Un_commute)
    next
      assume f: "length (vecs w) \<le> pos (obj w3 this)"
      have "vectors_kept ({v, pos (obj w this), asize (obj w this)} \<union> {pos (obj w3 this)}) w w'"
        using all by (rule vectors_kept_mono) auto
      then show ?thesis by (rule vectors_kept_fresh) (simp add: f)
    qed
    with v show ?thesis by blast
  qed
qed


text \<open>
  C9, as the code has it. \<open>plus\<close> and \<open>times\<close> return a new Vector and change no existing
  one; \<open>Lava.act\<close> and \<open>Coin.act\<close> change no existing Vector either. \<open>Player.moveX\<close> and
  \<open>Player.moveY\<close> change no existing Vector except the player's speed Vector, whose field
  they assign; \<open>Player.act\<close> changes no existing Vector except the player's speed, position
  and size Vectors.
\<close>

theorem C9_vectors_in_place:
  "(Vector_plus a b w = (r, w') \<longrightarrow> r = length (vecs w) \<and> vectors_kept {} w w') \<and>
   (Vector_times a f w = (r, w') \<longrightarrow> r = length (vecs w) \<and> vectors_kept {} w w') \<and>
   (Lava_act step this w = Inr w' \<longrightarrow> vectors_kept {} w w') \<and>
   (Coin_act step this w = Inr w' \<longrightarrow> vectors_kept {} w w') \<and>
   (Player_moveX step ks this w = Inr w' \<longrightarrow>
      (\<exists>v. speed (obj w this) = Some v \<and> vectors_kept {v} w w')) \<and>
   (Player_moveY step ks this w = Inr w' \<longrightarrow>
      (\<exists>v. speed (obj w this) = Some v \<and> vectors_kept {v} w w')) \<and>
   (Player_act step ks this w = Inr w' \<longrightarrow>
      (\<exists>v. speed (obj w this) = Some v \<and>
           vectors_kept {v, pos (obj w this), asize (obj w this)} w w'))"
  using Vector_plus_kept [of a b w r w'] Vector_times_kept [of a f w r w']
    Lava_act_kept [of step this w w'] Coin_act_kept [of step this w w']
    Player_moveX_kept [of step ks this w w'] Player_moveY_kept [of step ks this w w']
    Player_act_kept [of step ks this w w']
  by blast

lemma demo_moveX: "Player_moveX maxStep demo_keys 0 demo_level = Inr demo_moved"
  by (simp add: act_eval obstacle_eval heap_eval fl_eval demo_keys_def demo_level_def
      demo_moved_def)

lemma demo_moveY: "\<exists>w'. Player_moveY (1 / 32) up_keys 0 demo_level = Inr w'"
  by (simp add: act_eval obstacle_eval heap_eval fl_eval up_keys_def demo_level_def)

lemma lava_act_runs: "\<exists>w'. Lava_act (1 / 32) 0 lava_level = Inr w'"
  by (simp add: Lava_act_def obstacle_eval heap_eval fl_eval lava_level_def)

lemma coin_act_runs: "\<exists>w'. Coin_act (1 / 32) 1 demo_level = Inr w'"
  by (simp add: Coin_act_def obj_def demo_level_def Let_def case_prod_beta)

theorem C9_vectors_in_place_witness:
  "fst (Vector_plus 2 1 demo_level) = 9 \<and>
   vectors_kept {} demo_level (snd (Vector_plus 2 1 demo_level)) \<and>
   fst (Vector_times 2 3 demo_level) = 9 \<and>
   vectors_kept {} demo_level (snd (Vector_times 2 3 demo_level)) \<and>
   (\<exists>w'. Lava_act (1 / 32) 0 lava_level = Inr w' \<and> vectors_kept {} lava_level w') \<and>
   (\<exists>w'. Coin_act (1 / 32) 1 demo_level = Inr w' \<and> vectors_kept {} demo_level w') \<and>
   vectors_kept {4} demo_level demo_moved \<and>
   (\<exists>w'. Player_moveY (1 / 32) up_keys 0 demo_level = Inr w' \<and> vectors_kept {4} demo_level w') \<and>
   vectors_kept {4, 2, 3} demo_level demo_lost"
proof -
  have sp: "speed (obj demo_level 0) = Some 4" "pos (obj demo_level 0) = 2"
    "asize (obj demo_level 0) = 3" "length (vecs demo_level) = 9"
    by (simp_all add: obj_def demo_level_def)
  have a: "fst (Vector_plus 2 1 demo_level) = 9 \<and>
           vectors_kept {} demo_level (snd (Vector_plus 2 1 demo_level))"
    using C9_vectors_in_place [where a = 2 and b = 1 and w = demo_level
        and r = "fst (Vector_plus 2 1 demo_level)" and w' = "snd (Vector_plus 2 1 demo_level)"]
    by (simp add: sp)
  have b: "fst (Vector_times 2 3 demo_level) = 9 \<and>
           vectors_kept {} demo_level (snd (Vector_times 2 3 demo_level))"
    using C9_vectors_in_place [where a = 2 and f = 3 and w = demo_level
        and r = "fst (Vector_times 2 3 demo_level)" and w' = "snd (Vector_times 2 3 demo_level)"]
    by (simp add: sp)
  have c: "\<exists>w'. Lava_act (1 / 32) 0 lava_level = Inr w' \<and> vectors_kept {} lava_level w'"
  proof -
    from lava_act_runs obtain w' where "Lava_act (1 / 32) 0 lava_level = Inr w'" ..
    with C9_vectors_in_place [where step = "1 / 32" and this = 0 and w = lava_level and w' = w']
    show ?thesis by blast
  qed
  have d: "\<exists>w'. Coin_act (1 / 32) 1 demo_level = Inr w' \<and> vectors_kept {} demo_level w'"
  proof -
    from coin_act_runs obtain w' where "Coin_act (1 / 32) 1 demo_level = Inr w'" ..
    with C9_vectors_in_place [where step = "1 / 32" and this = 1 and w = demo_level and w' = w']
    show ?thesis by blast
  qed
  have e: "vectors_kept {4} demo_level demo_moved"
    using C9_vectors_in_place [where step = maxStep and ks = demo_keys and this = 0
        and w = demo_level and w' = demo_moved] demo_moveX sp
    by auto
  have f: "\<exists>w'. Player_moveY (1 / 32) up_keys 0 demo_level = Inr w' \<and> vectors_kept {4} demo_level w'"
  proof -
    from demo_moveY obtain w' where "Player_moveY (1 / 32) up_keys 0 demo_level = Inr w'" ..
    with C9_vectors_in_place [where step = "1 / 32" and ks = up_keys and this = 0
        and w = demo_level and w' = w'] sp
    show ?thesis by auto
  qed
  have g: "vectors_kept {4, 2, 3} demo_level demo_lost"
    using C9_vectors_in_place [where step = maxStep and ks = demo_keys and this = 0
        and w = demo_level and w' = demo_lost] demo_first_step sp
    by auto
  from a b c d e f g show ?thesis by blast
qed

text \<open>
  C9 as stated fails: \<open>moveX\<close> with the right arrow held assigns \<open>7\<close> to the \<open>x\<close> field of
  the player's speed Vector. The Vector at address \<open>4\<close> is the player's speed before and
  after, and its contents change from \<open>(0, 0)\<close> to \<open>(7, 0)\<close>.
\<close>

theorem C9_counterexample:
  "speed (obj demo_level 0) = Some 4 \<and> vec demo_level 4 = \<lparr>x = 0, y = 0\<rparr> \<and>
   Player_moveX maxStep demo_keys 0 demo_level = Inr demo_moved \<and>
   speed (obj demo_moved 0) = Some 4 \<and> vec demo_moved 4 = \<lparr>x = 7, y = 0\<rparr>"
  using demo_moveX by (simp add: obj_def vec_def demo_level_def demo_moved_def)


section \<open>Levels on which the actors can act\<close>

text \<open>
  On such a level no method throws: \<open>obstacleAt\<close> finds every row it reads, and every
  actor has the fields its \<open>act\<close> uses. Acting keeps the level such a level, and every
  level that the constructor returns is one.
\<close>

lemma scan_row_runs:
  "0 \<le> yy \<Longrightarrow> nat yy < length (grid w) \<Longrightarrow> \<exists>r. scan_row w yy xx xEnd = Inr r"
proof (induction w yy xx xEnd rule: scan_row.induct)
  case (1 w yy xx xEnd)
  have ga: "\<exists>c. grid_at w yy xx = Inr c" using "1.prems" by (simp add: grid_at_def Let_def)
  then obtain c where c: "grid_at w yy xx = Inr c" ..
  show ?case
  proof (cases "xx < xEnd \<and> \<not> truthy c")
    case True
    with "1.IH" [of c] c "1.prems" show ?thesis
      by (subst scan_row.simps) simp
  next
    case False
    then show ?thesis using c by (subst scan_row.simps) auto
  qed
qed

lemma scan_rows_runs:
  "0 \<le> yy \<Longrightarrow> yEnd \<le> int (length (grid w))
     \<Longrightarrow> \<exists>r. scan_rows w yy yEnd xStart xEnd = Inr r"
proof (induction w yy yEnd xStart xEnd rule: scan_rows.induct)
  case (1 w yy yEnd xStart xEnd)
  show ?case
  proof (cases "yy < yEnd")
    case False
    then show ?thesis by (subst scan_rows.simps) simp
  next
    case True
    then have "nat yy < length (grid w)" using "1.prems" by simp
    from scan_row_runs [OF "1.prems"(1) this] obtain r
      where r: "scan_row w yy xStart xEnd = Inr r" by blast
    show ?thesis
    proof (cases "truthy r")
      case t: True
      then show ?thesis using True r by (subst scan_rows.simps) simp
    next
      case f: False
      with "1.IH" [OF True r f] "1.prems" True r show ?thesis
        by (subst scan_rows.simps) simp
    qed
  qed
qed

lemma obstacleAt_runs:
  "height w \<le> length (grid w) \<Longrightarrow> \<exists>r. obstacleAt w p sz = Inr r"
  using scan_rows_runs [of "\<lfloor>y p\<rfloor>" "\<lceil>js_add (y p) (y sz)\<rceil>" w "\<lfloor>x p\<rfloor>" "\<lceil>js_add (x p) (x sz)\<rceil>"]
  by (auto simp: obstacleAt_def Let_def)

lemma obstacleAt_not_Inl:
  "height w \<le> length (grid w) \<Longrightarrow> obstacleAt w p sz \<noteq> Inl e"
  using obstacleAt_runs [of w p sz] by auto

lemma keeps_ok_refl [simp]: "keeps_ok w w"
  by (simp add: keeps_ok_def)


lemma keeps_ok_vecs: "keeps_ok w (w\<lparr>vecs := vs\<rparr>)"
  by (simp add: keeps_ok_def)




lemma frame_set [simp]:
  "height (set_x r a w) = height w" "grid (set_x r a w) = grid w"
  "actors (set_x r a w) = actors w" "objs (set_x r a w) = objs w"
  "height (set_y r a w) = height w" "grid (set_y r a w) = grid w"
  "actors (set_y r a w) = actors w" "objs (set_y r a w) = objs w"
  "height (set_pos this q w) = height w" "grid (set_pos this q w) = grid w"
  "actors (set_pos this q w) = actors w"
  "height (set_speed this v w) = height w" "grid (set_speed this v w) = grid w"
  "actors (set_speed this v w) = actors w"
  by (simp_all add: set_x_def set_y_def set_pos_def set_speed_def)

lemma frame_new [simp]:
  "height (snd (new_Vector a b w)) = height w" "grid (snd (new_Vector a b w)) = grid w"
  "actors (snd (new_Vector a b w)) = actors w" "objs (snd (new_Vector a b w)) = objs w"
  "height (snd (Vector_plus p q w)) = height w" "grid (snd (Vector_plus p q w)) = grid w"
  "actors (snd (Vector_plus p q w)) = actors w" "objs (snd (Vector_plus p q w)) = objs w"
  "height (snd (Vector_times p f w)) = height w" "grid (snd (Vector_times p f w)) = grid w"
  "actors (snd (Vector_times p f w)) = actors w" "objs (snd (Vector_times p f w)) = objs w"
  by (simp_all add: new_Vector_def Vector_plus_def Vector_times_def)




lemma actor_ok_with_pos [simp]: "actor_ok (with_pos q a) = actor_ok a"
  by (cases a) (simp_all add: actor_ok_def)



















section \<open>The sub-steps of \<open>animate\<close>\<close>

subsection \<open>Doubles that are rounded to themselves\<close>




lemma fl_zero [simp]: "fl 0 = 0"
  by (simp add: fl_def round_even_def)



text \<open>
  \<open>maxStep\<close> is the double nearest to \<open>0.05\<close>. Between \<open>maxStep\<close> and \<open>2 * maxStep\<close> the
  doubles are multiples of \<open>2^-57\<close>, so subtracting \<open>maxStep\<close> there is exact.
\<close>

lemma maxStep_val: "maxStep = 3602879701896397 / 2 ^ 56"
  by (simp add: maxStep_def fl_eval)











subsection \<open>The loop follows the computed sub-steps\<close>

text \<open>
  C10, as the code has it. For a double \<open>deltaTime\<close> between \<open>0\<close> and \<open>2 * maxStep\<close> (the
  \<open>0.1\<close> seconds to which the caller \<open>runAnimation\<close> caps the frame time) the loop of
  \<open>animate\<close> ends. Its sub-steps are the ones of the specification: there are
  \<open>ceil(deltaTime / maxStep)\<close> of them, each is the minimum of the remaining time and
  \<open>maxStep\<close>, and they sum to \<open>deltaTime\<close>; \<open>animate\<close> runs the actors of the level once
  for each of them, in the order of the actor list.
\<close>

lemma length_spec_steps [simp]: "length (spec_steps n r) = n"
  by (induction n arbitrary: r) simp_all



text \<open>
  C10 as stated fails for larger values: \<open>2^60 - 0.05\<close> rounds to \<open>2^60\<close>, so for
  \<open>deltaTime = 2^60\<close> the remaining time never decreases and \<open>animate\<close> does not return,
  on the one-coin level as on every level that the constructor returns.
\<close>

lemma stuck_step:
  "js_sub 1152921504606846976 (min 1152921504606846976 maxStep) = 1152921504606846976"
  by (simp add: maxStep_val fl_eval)

lemma substeps_stuck: "substeps (2 ^ 60) = None"
proof -
  have "step \<noteq> 2 ^ 60" if a: "substeps step = Some ss" for step ss
  proof (rule substeps.raw_induct [where P = "\<lambda>step ss. step \<noteq> 2 ^ 60", OF _ a])
    fix substeps' :: "real \<Rightarrow> real list option" and step :: real and ss :: "real list"
    assume IH: "\<And>x y. substeps' x = Some y \<Longrightarrow> x \<noteq> 2 ^ 60"
      and eq: "(if 0 < step
                then Option.bind (substeps' (js_sub step (min step maxStep)))
                       (\<lambda>rest. Some (min step maxStep # rest))
                else Some []) = Some ss"
    show "step \<noteq> 2 ^ 60"
    proof
      assume s: "step = 2 ^ 60"
      with eq obtain rest where "substeps' 1152921504606846976 = Some rest"
        by (auto simp: stuck_step Option.bind_eq_Some_conv)
      from IH [OF this] show False by simp
    qed
  qed
  then show ?thesis by (cases "substeps (2 ^ 60)") auto
qed





text \<open>
  The number of iterations can differ from \<open>ceil(deltaTime / maxStep)\<close> as well: for
  \<open>deltaTime = 0.2\<close> the loop runs five sub-steps, the last of \<open>2^-56\<close> seconds, and the
  quotient is \<open>4\<close>.
\<close>

lemmas substeps_num =
  substeps.simps [of "numeral a / numeral b"] substeps.simps [of "numeral a"]
  substeps.simps [of 0] substeps.simps [of "1 / numeral b"]
  for a b

lemma substeps_fifth:
  "substeps (fl (2 / 10))
     = Some [maxStep, maxStep, maxStep, maxStep, 1 / 2 ^ 56] \<and>
   nat \<lceil>fl (2 / 10) / maxStep\<rceil> = 4"
  by (simp add: substeps_num maxStep_val fl_eval)




end
